(* ===== verification/Prelude.thy ===== *)
theory Prelude
  imports Main "HOL-Library.Word"
begin

text \<open>
  Shared vocabulary of the development: the C integer types of the diagnostic as words,
  byte memory as an explicit store, the libc \<open>memset\<close> on that store, the errno values
  the command returns, and the generic lemmas on stores and register bits that the
  component theories use through the collections \<open>mem_simps\<close> and \<open>reg_simps\<close>.
\<close>

unbundle bit_operations_syntax

named_theorems mem_simps \<open>reading a byte store after memset and single-byte stores\<close>
named_theorems reg_simps \<open>single bits of a register value after masking\<close>

section \<open>C types\<close>

type_synonym u8 = "8 word"
type_synonym u16 = "16 word"
type_synonym u32 = "32 word"
type_synonym ulong = "64 word"

text \<open>
  A byte store: the memory the diagnostic writes through \<open>uchar *\<close> pointers. Address
  \<open>a\<close> of a buffer is \<open>buf a\<close>; a pointer into the buffer is an offset (a \<open>nat\<close>).
  The whole store is total, so pointer arithmetic inside a buffer (\<open>net_tx_packet + 14\<close>)
  and aliasing between the header and the payload of one frame are visible.
\<close>

type_synonym buf = "nat \<Rightarrow> u8"

section \<open>libc: memset and errno\<close>

definition memset :: "buf \<Rightarrow> nat \<Rightarrow> u8 \<Rightarrow> nat \<Rightarrow> buf" where
  "memset m p c n = (\<lambda>a. if p \<le> a \<and> a < p + n then c else m a)"

definition memcpy :: "buf \<Rightarrow> nat \<Rightarrow> buf \<Rightarrow> nat \<Rightarrow> buf" where
  "memcpy m p src n = (\<lambda>a. if p \<le> a \<and> a < p + n then src (a - p) else m a)"

definition EINVAL :: int where "EINVAL = 22"
definition EBUSY :: int where "EBUSY = 16"

lemma memset_apply [mem_simps]:
  "memset m p c n a = (if p \<le> a \<and> a < p + n then c else m a)"
  by (simp add: memset_def)

lemma memset_zero [mem_simps]: "memset m p c 0 = m"
  by (rule ext) (auto simp: memset_def)

lemma memset_one [mem_simps]: "memset m p c 1 = m(p := c)"
  by (auto simp: memset_def)

lemma memcpy_apply [mem_simps]:
  "memcpy m p src n a = (if p \<le> a \<and> a < p + n then src (a - p) else m a)"
  by (simp add: memcpy_def)

lemma errno_values [simp]: "EINVAL = 22" "EBUSY = 16"
  by (simp_all add: EINVAL_def EBUSY_def)

section \<open>Bits of register values\<close>

lemma bit_or_mask [reg_simps]: "bit (x OR y) n \<longleftrightarrow> bit x n \<or> bit y n"
  for x y :: "'a::len word"
  by (simp add: bit_or_iff)

lemma bit_and_not_mask [reg_simps]: "bit (x AND NOT y) n \<longleftrightarrow> bit x n \<and> \<not> bit y n"
  for x y :: "'a::len word"
  by (auto simp: bit_and_iff bit_not_iff dest: bit_imp_le_length)

section \<open>Unsigned halving\<close>

text \<open>\<open>x &= ~1; x / 2\<close> halves like \<open>x / 2\<close>; below 2 the half is 0, so \<open>x / 2 - 1\<close> wraps.\<close>

lemma and_not_one_half: "((x::'a::len word) AND NOT 1) div 2 = x div 2"
  by (rule bit_eqI) (auto simp: bit_and_iff bit_not_iff dest: bit_imp_le_length simp flip: bit_Suc)

lemma half_zero: "unat (x::'a::len word) < 2 \<Longrightarrow> x div 2 = 0"
  by (simp add: unat_div word_unat_eq_iff)

end
