(* ===== verification/Platform.thy ===== *)
theory Platform
  imports Prelude
begin

text \<open>
  The interface between the diagnostic of \<open>test-eth.c\<close> and the U-Boot services it
  calls but does not define: the driver model (\<open>eth_get_dev\<close>, \<open>device_active\<close>), the
  MDIO bus and its PHY map, MAC register access, the network stack (\<open>net_init\<close>,
  \<open>eth_init\<close>, \<open>net_send_packet\<close>, the driver's \<open>recv\<close> and \<open>free_pkt\<close>), the RGMII
  delay-line setter \<open>gmac_set_rgmii\<close> and the command interpreter. Their behaviour is
  taken from their contracts, not from code: an \<open>env\<close> record fixes what the
  collaborators answer, a \<open>sys\<close> record holds the state the diagnostic changes, and
  every externally visible effect is appended to an ordered event log.
\<close>

unbundle bit_operations_syntax

section \<open>Observable effects\<close>

datatype event =
    PrintRow nat                \<comment> \<open>\<open>printf("[0x%02x]:", i)\<close> at the start of a sweep row\<close>
  | PrintMark char              \<comment> \<open>one result character: \<open>*\<close>, \<open>x\<close>, \<open>?\<close> or space\<close>
  | PrintNewline                \<comment> \<open>\<open>printf("\n")\<close>\<close>
  | PrintMsg string             \<comment> \<open>any other diagnostic message\<close>
  | PrintErr string int         \<comment> \<open>a message ending in \<open>error: %d\<close>, with its code\<close>
  | SetRgmii u32 u32            \<comment> \<open>\<open>gmac_set_rgmii(current, tx, rx)\<close>\<close>
  | MacWrite u32                \<comment> \<open>\<open>writel(conf, pdata->iobase)\<close>\<close>
  | PhyWrite nat u16            \<comment> \<open>\<open>phy_write(phydev, MDIO_DEVAD_NONE, MII_BMCR, val)\<close>\<close>
  | SendPacket buf nat          \<comment> \<open>\<open>net_send_packet(net_tx_packet, len)\<close>: the store sent\<close>
  | Udelay nat                  \<comment> \<open>\<open>udelay(us)\<close>\<close>
  | FreePkt int                 \<comment> \<open>\<open>free_pkt(current, rx_packet, length)\<close>\<close>
  | NetInit | EthHalt | EthSetCurrent | EthInit
  | RunCommand string           \<comment> \<open>\<open>cli_simple_run_command(cmd_eth, 0)\<close>\<close>

section \<open>Collaborators and state\<close>

text \<open>A PHY as the MDIO layer's \<open>struct phy_device\<close> shows it: its duplex flag and its
  basic mode control register.\<close>

record phy_device =
  phy_addr :: nat
  duplex :: int
  phy_bmcr :: u16

text \<open>
  What the collaborators answer. \<open>eth_dev\<close> is \<open>eth_get_dev()\<close>: \<open>None\<close> for
  \<open>NULL\<close>, \<open>Some act\<close> with \<open>act = device_active(current)\<close>. \<open>recv\<close> is the driver's
  receive operation: from the event log so far (every frame sent, in order) it yields
  the returned length and the buffer \<open>rx_packet\<close> points to.
\<close>

record env =
  eth_dev :: "bool option"
  net_ethaddr :: buf
  eth_init_ret :: int
  recv :: "event list \<Rightarrow> int \<times> buf"
  has_free_pkt :: bool
  cli_ret :: "string \<Rightarrow> int"

text \<open>
  What the diagnostic changes: the current MDIO bus's \<open>phymap\<close>, the MAC configuration
  register at \<open>pdata->iobase\<close>, whether \<open>net_tx_packet\<close> is set up (\<open>net_init\<close> was
  called), the contents of the \<open>net_tx_packet\<close> buffer, and the event log.
\<close>

record sys =
  phymap :: "nat \<Rightarrow> phy_device option"
  mac_conf :: u32
  net_tx_ready :: bool
  txbuf :: buf
  events :: "event list"

definition emit :: "event \<Rightarrow> 'a sys_scheme \<Rightarrow> 'a sys_scheme" where
  "emit e s = s\<lparr>events := events s @ [e]\<rparr>"

section \<open>The collaborator operations\<close>

definition net_init :: "'a sys_scheme \<Rightarrow> 'a sys_scheme" where
  "net_init s = emit NetInit (s\<lparr>net_tx_ready := True\<rparr>)"

definition eth_halt :: "'a sys_scheme \<Rightarrow> 'a sys_scheme" where
  "eth_halt s = emit EthHalt s"

definition eth_set_current :: "'a sys_scheme \<Rightarrow> 'a sys_scheme" where
  "eth_set_current s = emit EthSetCurrent s"

definition eth_init :: "env \<Rightarrow> 'a sys_scheme \<Rightarrow> int \<times> 'a sys_scheme" where
  "eth_init E s = (eth_init_ret E, emit EthInit s)"

definition writel :: "u32 \<Rightarrow> 'a sys_scheme \<Rightarrow> 'a sys_scheme" where
  "writel v s = emit (MacWrite v) (s\<lparr>mac_conf := v\<rparr>)"

definition phy_write :: "nat \<Rightarrow> u16 \<Rightarrow> 'a sys_scheme \<Rightarrow> 'a sys_scheme" where
  "phy_write a v s =
     emit (PhyWrite a v)
       (s\<lparr>phymap := (phymap s)(a := map_option (\<lambda>p. p\<lparr>phy_bmcr := v\<rparr>) (phymap s a))\<rparr>)"

definition gmac_set_rgmii :: "u32 \<Rightarrow> u32 \<Rightarrow> 'a sys_scheme \<Rightarrow> 'a sys_scheme" where
  "gmac_set_rgmii tx rx s = emit (SetRgmii tx rx) s"

definition net_send_packet :: "nat \<Rightarrow> 'a sys_scheme \<Rightarrow> 'a sys_scheme" where
  "net_send_packet len s = emit (SendPacket (txbuf s) len) s"

definition udelay :: "nat \<Rightarrow> 'a sys_scheme \<Rightarrow> 'a sys_scheme" where
  "udelay us s = emit (Udelay us) s"

lemmas platform_defs = emit_def net_init_def eth_halt_def eth_set_current_def eth_init_def
  writel_def phy_write_def gmac_set_rgmii_def net_send_packet_def udelay_def

lemma emit_fields [simp]:
  "events (emit e s) = events s @ [e]"
  "phymap (emit e s) = phymap s"
  "mac_conf (emit e s) = mac_conf s"
  "net_tx_ready (emit e s) = net_tx_ready s"
  "txbuf (emit e s) = txbuf s"
  "sys.more (emit e s) = sys.more s"
  by (simp_all add: emit_def)

lemma emit_txbuf_update [simp]: "emit e (s\<lparr>txbuf := m\<rparr>) = (emit e s)\<lparr>txbuf := m\<rparr>"
  by (simp add: emit_def)

end
