(* ===== verification/Frame.thy ===== *)
theory Frame
  imports Platform
begin

text \<open>
  The loopback test frame of \<open>src/test/rockchip/test-eth.c\<close>: the Ethernet header that
  \<open>net_set_ether\<close> writes, the canonical payload of \<open>create_lbtest_frame\<close>, the
  sentinel bytes of \<open>alter_lbtest_frame\<close> and the byte comparison
  \<open>check_lbtest_frame\<close>. Buffers are byte stores (\<open>buf\<close>); a \<open>uchar *\<close> argument is
  a store and an offset into it, and the C \<open>unsigned int\<close> sizes and delays are
  \<open>u32\<close> words, so the unsigned arithmetic of the code wraps as it does in C.
\<close>

unbundle bit_operations_syntax

section \<open>Sizes\<close>

definition LOOPBACK_TEST_HDR_SIZE :: nat where "LOOPBACK_TEST_HDR_SIZE = 14"
definition LOOPBACK_TEST_DATA_SIZE :: nat where "LOOPBACK_TEST_DATA_SIZE = 1500"
definition LOOPBACK_TEST_FRAME_SIZE :: nat where "LOOPBACK_TEST_FRAME_SIZE = 14 + 1500"

lemmas frame_sizes [simp] =
  LOOPBACK_TEST_HDR_SIZE_def LOOPBACK_TEST_DATA_SIZE_def LOOPBACK_TEST_FRAME_SIZE_def

section \<open>The Ethernet header (net stack)\<close>

text \<open>\<open>net_bcast_ethaddr\<close> is six bytes \<open>0xff\<close>. \<open>net_set_ether(xet, dest, prot)\<close>
  without a VLAN copies the destination and the board's own address and stores
  \<open>htons(prot)\<close>; it returns the header size 14.\<close>

definition net_bcast_ethaddr :: buf where
  "net_bcast_ethaddr = (\<lambda>_. 0xFF)"

definition net_set_ether :: "buf \<Rightarrow> nat \<Rightarrow> buf \<Rightarrow> buf \<Rightarrow> u32 \<Rightarrow> buf \<times> nat" where
  "net_set_ether m xet dest src prot =
     (let m1 = memcpy m xet dest 6;
          m2 = memcpy m1 (xet + 6) src 6;
          pl = (ucast prot :: u16)
      in (m2(xet + 12 := ucast (drop_bit 8 pl), xet + 13 := ucast pl), 14))"

section \<open>The frame operations of test-eth.c\<close>

definition create_lbtest_frame :: "buf \<Rightarrow> nat \<Rightarrow> u32 \<Rightarrow> buf" where
  "create_lbtest_frame m data frame_size =
     (let m1 = memset m data 0xFF (unat frame_size);
          fs = frame_size AND NOT 1
      in memset m1 (data + unat (fs div 2)) 0xAA (unat (fs div 2 - 1)))"

definition alter_lbtest_frame :: "buf \<Rightarrow> nat \<Rightarrow> u32 \<Rightarrow> u32 \<Rightarrow> u32 \<Rightarrow> buf" where
  "alter_lbtest_frame m data frame_size tx rx =
     (let fs = frame_size AND NOT 1;
          m1 = memset m (data + unat (fs div 2 + tx)) 0xBE 1
      in memset m1 (data + unat (fs div 2 + rx)) 0xAF 1)"

text \<open>The largest value of the C \<open>int\<close> index.\<close>

definition INT_MAX :: int where "INT_MAX = 2 ^ 31 - 1"

text \<open>The comparison loop \<open>for (i = 0; i < frame_size; i++)\<close> with an \<open>int i\<close>
  against an \<open>unsigned int frame_size\<close>: the test converts \<open>i\<close> to \<open>unsigned int\<close>;
  the first differing byte returns 13, a full pass returns 0. The increment past
  \<open>INT_MAX\<close> is a signed overflow, undefined in C: the loop yields \<open>None\<close> there.\<close>

function check_loop :: "buf \<Rightarrow> buf \<Rightarrow> u32 \<Rightarrow> int \<Rightarrow> int option" where
  "check_loop tx_data rx_data frame_size i =
     (if (word_of_int i :: u32) < frame_size then
        (if tx_data (nat i) \<noteq> rx_data (nat i) then Some 13
         else if INT_MAX \<le> i then None
         else check_loop tx_data rx_data frame_size (i + 1))
      else Some 0)"
  by pat_completeness auto
termination
  by (relation "measure (\<lambda>(tx_data, rx_data, frame_size, i). nat (INT_MAX - i))") auto

declare check_loop.simps [simp del]

definition check_lbtest_frame :: "buf \<Rightarrow> buf \<Rightarrow> u32 \<Rightarrow> int option" where
  "check_lbtest_frame tx_data rx_data frame_size = check_loop tx_data rx_data frame_size 0"

text \<open>The reference the loop implements: the first \<open>n\<close> bytes agree.\<close>

definition frames_agree :: "buf \<Rightarrow> buf \<Rightarrow> nat \<Rightarrow> bool" where
  "frames_agree tx_data rx_data n = list_all (\<lambda>k. tx_data k = rx_data k) [0..<n]"

section \<open>Lemmas\<close>

lemma frames_agree_iff: "frames_agree t r n \<longleftrightarrow> (\<forall>k<n. t k = r k)"
  by (auto simp: frames_agree_def list_all_iff)

lemma int_index_less:
  assumes "0 \<le> i" and "i \<le> INT_MAX"
  shows "(word_of_int i :: u32) < fs \<longleftrightarrow> nat i < unat fs"
proof -
  have "word_of_int i = (of_nat (nat i) :: u32)" using assms(1) by simp
  moreover have "nat i < 2 ^ 32" using assms by (simp add: INT_MAX_def nat_less_iff)
  ultimately show ?thesis by (simp add: word_less_nat_alt unat_of_nat)
qed

lemma check_loop_eq:
  "0 \<le> i \<Longrightarrow> i \<le> INT_MAX \<Longrightarrow>
   check_loop t r fs i =
     (if \<forall>k. nat i \<le> k \<and> k < min (unat fs) (2 ^ 31) \<longrightarrow> t k = r k
      then (if unat fs < 2 ^ 31 then Some 0 else None) else Some 13)"
proof (induction t r fs i rule: check_loop.induct)
  case (1 t r fs i)
  have lt: "(word_of_int i :: u32) < fs \<longleftrightarrow> nat i < unat fs"
    using "1.prems" by (rule int_index_less)
  have top: "nat i \<le> 2 ^ 31 - 1" using "1.prems" by (simp add: INT_MAX_def)
  show ?case
  proof (cases "nat i < unat fs")
    case True
    show ?thesis
    proof (cases "t (nat i) = r (nat i)")
      case same: True
      show ?thesis
      proof (cases "INT_MAX \<le> i")
        case True
        then have i: "nat i = 2147483647" using top by (simp add: INT_MAX_def)
        have "(\<forall>k. nat i \<le> k \<and> k < min (unat fs) (2 ^ 31) \<longrightarrow> t k = r k)"
        proof (intro allI impI)
          fix k assume "nat i \<le> k \<and> k < min (unat fs) (2 ^ 31)"
          then have "k = nat i" using i by simp
          then show "t k = r k" using same by simp
        qed
        with \<open>nat i < unat fs\<close> i lt True show ?thesis
          by (simp add: check_loop.simps [of t r fs i])
      next
        case False
        have split: "(\<forall>k. nat i \<le> k \<and> k < min (unat fs) (2 ^ 31) \<longrightarrow> t k = r k) \<longleftrightarrow>
              (\<forall>k. nat (i + 1) \<le> k \<and> k < min (unat fs) (2 ^ 31) \<longrightarrow> t k = r k)"
          using same "1.prems"(1) by (auto simp: nat_add_distrib Suc_le_eq dest: le_neq_implies_less)
        have ne: "\<not> t (nat i) \<noteq> r (nat i)" using same by simp
        from "1.IH" [OF lt [THEN iffD2, OF True] ne False] False "1.prems"(1)
        have "check_loop t r fs (i + 1) =
           (if \<forall>k. nat (i + 1) \<le> k \<and> k < min (unat fs) (2 ^ 31) \<longrightarrow> t k = r k
            then (if unat fs < 2 ^ 31 then Some 0 else None) else Some 13)" by simp
        with True same False lt split show ?thesis by (simp add: check_loop.simps [of t r fs i])
      qed
    next
      case False
      have "nat i < min (unat fs) (2 ^ 31)" using True top by simp
      with False \<open>nat i < unat fs\<close> lt show ?thesis
        by (auto simp: check_loop.simps [of t r fs i])
    qed
  next
    case False
    then show ?thesis using lt top by (simp add: check_loop.simps [of t r fs i])
  qed
qed

text \<open>Below \<open>2^31\<close> the index never overflows and the loop computes \<open>frames_agree\<close>.\<close>

lemma check_lbtest_frame_small:
  "unat fs < 2 ^ 31 \<Longrightarrow> check_lbtest_frame t r fs = Some (if frames_agree t r (unat fs) then 0 else 13)"
  by (simp add: check_lbtest_frame_def check_loop_eq INT_MAX_def frames_agree_iff)

lemma create_lbtest_frame_half:
  "create_lbtest_frame m data fs =
     memset (memset m data 0xFF (unat fs)) (data + unat fs div 2) 0xAA (unat (fs div 2 - 1))"
  unfolding create_lbtest_frame_def Let_def and_not_one_half by (simp add: unat_div)

lemma alter_lbtest_frame_half:
  "alter_lbtest_frame m data fs tx rx =
     m(data + unat (fs div 2 + tx) := 0xBE, data + unat (fs div 2 + rx) := 0xAF)"
  unfolding alter_lbtest_frame_def Let_def and_not_one_half memset_one ..

lemma unat_half_pred:
  "2 \<le> unat (fs::u32) \<Longrightarrow> unat (fs div 2 - 1) = unat fs div 2 - 1"
  by (simp add: unat_div unat_sub_if' word_less_nat_alt)

lemma unat_half_plus:
  "unat (fs::u32) div 2 + unat d < 2 ^ 32 \<Longrightarrow> unat (fs div 2 + d) = unat fs div 2 + unat d"
  by (simp add: unat_add_lem [THEN iffD1] unat_div)

lemma unat_u32_minus_one: "unat (-1::u32) = 4294967295"
  by (simp add: unsigned_minus_1_eq_mask mask_eq_exp_minus_1)

text \<open>C27: \<open>check_lbtest_frame\<close> returns 0 when the first \<open>frame_size\<close> bytes of the
  two buffers agree and 13 at the first difference, for every size below \<open>2^31\<close>.
  From \<open>2^31\<close> on, the \<open>int\<close> index reaches \<open>INT_MAX\<close>: a difference among the first
  \<open>2^31\<close> bytes still returns 13, but a full match there ends in the undefined
  \<open>i++\<close> (\<open>None\<close>). The one caller passes 1514.\<close>

theorem check_lbtest_frame_defined:
  "check_lbtest_frame t r fs =
     (if frames_agree t r (min (unat fs) (2 ^ 31))
      then (if unat fs < 2 ^ 31 then Some 0 else None) else Some 13)"
  by (simp add: check_lbtest_frame_def check_loop_eq INT_MAX_def frames_agree_iff)

text \<open>C28: for a frame size of at least 2, \<open>create_lbtest_frame\<close> writes only inside
  \<open>[data, data + frame_size)\<close>: \<open>0xAA\<close> on the \<open>frame_size/2 - 1\<close> bytes from the
  middle, \<open>0xFF\<close> on the rest (the first half and the last byte or two).\<close>

theorem create_lbtest_frame_layout:
  assumes "2 \<le> unat fs"
  shows "create_lbtest_frame m data fs a =
    (if data \<le> a \<and> a < data + unat fs then
       (if data + unat fs div 2 \<le> a \<and> a < data + unat fs div 2 + (unat fs div 2 - 1)
        then 0xAA else 0xFF)
     else m a)"
  using assms by (auto simp: create_lbtest_frame_half memset_apply unat_half_pred)

theorem create_lbtest_frame_layout_witness:
  "2 \<le> unat (1500::u32) \<and> create_lbtest_frame (\<lambda>_. 0) 14 1500 800 = 0xAA
   \<and> create_lbtest_frame (\<lambda>_. 0) 14 1500 1513 = 0xFF"
  using create_lbtest_frame_layout [of 1500 "\<lambda>_. 0" 14 800]
        create_lbtest_frame_layout [of 1500 "\<lambda>_. 0" 14 1513] by simp

text \<open>C29: \<open>alter_lbtest_frame\<close> changes exactly two bytes: \<open>0xBE\<close> at
  \<open>data + frame_size/2 + tx\<close>, then \<open>0xAF\<close> at \<open>data + frame_size/2 + rx\<close> (the later
  write wins when \<open>tx = rx\<close>), provided the unsigned offsets do not wrap.\<close>

theorem alter_lbtest_frame_sentinels:
  assumes "unat fs div 2 + unat tx < 2 ^ 32" and "unat fs div 2 + unat rx < 2 ^ 32"
  shows "alter_lbtest_frame m data fs tx rx =
    m(data + unat fs div 2 + unat tx := 0xBE, data + unat fs div 2 + unat rx := 0xAF)"
  using assms by (simp add: alter_lbtest_frame_half unat_half_plus add.assoc)

theorem alter_lbtest_frame_sentinels_witness:
  "alter_lbtest_frame (\<lambda>_. 0) 14 1500 3 5 = (\<lambda>_. 0)(767 := 0xBE, 769 := 0xAF)"
  using alter_lbtest_frame_sentinels [of 1500 3 5 "\<lambda>_. 0" 14] by simp

text \<open>C30: for a frame size below 2, \<open>frame_size / 2 - 1\<close> wraps to \<open>0xFFFFFFFF\<close> and
  \<open>create_lbtest_frame\<close> fills \<open>2^32 - 1\<close> bytes from \<open>data\<close> with \<open>0xAA\<close>, far past
  any frame buffer. The only caller passes 1500, so the overflow is latent.\<close>

theorem create_lbtest_frame_wraps:
  assumes "unat fs < 2" and "data \<le> a" and "a < data + 4294967295"
  shows "create_lbtest_frame m data fs a = 0xAA"
  using assms by (simp add: create_lbtest_frame_half memset_apply half_zero unat_u32_minus_one)

theorem create_lbtest_frame_wraps_witness:
  "create_lbtest_frame (\<lambda>_. 0) 14 0 4000000000 = 0xAA"
  using create_lbtest_frame_wraps [of 0 14 4000000000 "\<lambda>_. 0"] by simp

end
