(* ===== verification/PhySetup.thy ===== *)
theory PhySetup
  imports Platform
begin

text \<open>
  The PHY loopback configurator of \<open>src/test/rockchip/test-eth.c\<close>:
  \<open>get_current_phydev\<close> (the first populated entry of the current MDIO bus's PHY map)
  and \<open>eth_setup_loopback_test\<close> (MAC configuration register, then the PHY's basic mode
  control register). The register updates are split into two pure functions,
  \<open>loopback_mac_conf\<close> and \<open>loopback_bmcr\<close>, which the handler composes with the
  register accesses of \<open>Platform\<close>. Their contract is stated against two decoders:
  the speed an IEEE 802.3 BMCR value selects, and the speed the MAC's port-select and
  FES bits select.
\<close>

unbundle bit_operations_syntax

section \<open>Constants\<close>

definition PHY_MAX_ADDR :: nat where "PHY_MAX_ADDR = 32"

definition LOOPBACK_SPEED_10 :: int where "LOOPBACK_SPEED_10 = 10"
definition LOOPBACK_SPEED_100 :: int where "LOOPBACK_SPEED_100 = 100"
definition LOOPBACK_SPEED_1000 :: int where "LOOPBACK_SPEED_1000 = 1000"

text \<open>MAC configuration register bits, as \<open>test-eth.c\<close> defines them.\<close>

definition FRAMEBURSTENABLE :: u32 where "FRAMEBURSTENABLE = push_bit 21 1"
definition MII_PORTSELECT :: u32 where "MII_PORTSELECT = push_bit 15 1"
definition FES_100 :: u32 where "FES_100 = push_bit 14 1"
definition DISABLERXOWN :: u32 where "DISABLERXOWN = push_bit 13 1"
definition FULLDPLXMODE :: u32 where "FULLDPLXMODE = push_bit 11 1"

text \<open>The BMCR bits of \<open>linux/mii.h\<close> (IEEE 802.3 clause 22, register 0). The code
  holds the register value in an \<open>int\<close>, so the masks are 32-bit words here.\<close>

definition MII_BMCR :: nat where "MII_BMCR = 0"
definition BMCR_SPEED1000 :: u32 where "BMCR_SPEED1000 = 0x0040"
definition BMCR_FULLDPLX :: u32 where "BMCR_FULLDPLX = 0x0100"
definition BMCR_PDOWN :: u32 where "BMCR_PDOWN = 0x0800"
definition BMCR_ANENABLE :: u32 where "BMCR_ANENABLE = 0x1000"
definition BMCR_SPEED100 :: u32 where "BMCR_SPEED100 = 0x2000"
definition BMCR_LOOPBACK :: u32 where "BMCR_LOOPBACK = 0x4000"

lemmas mac_bits = FRAMEBURSTENABLE_def MII_PORTSELECT_def FES_100_def DISABLERXOWN_def
  FULLDPLXMODE_def
lemmas bmcr_bits = BMCR_SPEED1000_def BMCR_FULLDPLX_def BMCR_PDOWN_def BMCR_ANENABLE_def
  BMCR_SPEED100_def BMCR_LOOPBACK_def
lemmas speed_consts [simp] = LOOPBACK_SPEED_10_def LOOPBACK_SPEED_100_def LOOPBACK_SPEED_1000_def

section \<open>get_current_phydev\<close>

text \<open>\<open>for (i = 0; i < PHY_MAX_ADDR; i++) if (bus->phymap[i]) return bus->phymap[i];\<close>
  The result is the PHY and its address, the pointer's identity in the map.\<close>

function phydev_scan :: "(nat \<Rightarrow> phy_device option) \<Rightarrow> nat \<Rightarrow> (nat \<times> phy_device) option" where
  "phydev_scan pm i =
     (if i < PHY_MAX_ADDR then
        (case pm i of Some p \<Rightarrow> Some (i, p) | None \<Rightarrow> phydev_scan pm (Suc i))
      else None)"
  by pat_completeness auto
termination
  by (relation "measure (\<lambda>(pm, i). PHY_MAX_ADDR - i)") auto

declare phydev_scan.simps [simp del]

definition get_current_phydev :: "'a sys_scheme \<Rightarrow> (nat \<times> phy_device) option" where
  "get_current_phydev s = phydev_scan (phymap s) 0"

section \<open>eth_setup_loopback_test\<close>

definition loopback_mac_conf :: "int \<Rightarrow> int \<Rightarrow> u32 \<Rightarrow> u32" where
  "loopback_mac_conf speed dpx conf =
     (let c1 = (if speed \<noteq> LOOPBACK_SPEED_1000 then conf OR MII_PORTSELECT
                else conf AND NOT MII_PORTSELECT);
          c2 = (if speed = LOOPBACK_SPEED_100 then c1 OR FES_100 else c1)
      in if dpx \<noteq> 0 then c2 OR FULLDPLXMODE else c2)"

definition loopback_bmcr :: "int \<Rightarrow> u32 \<Rightarrow> u32" where
  "loopback_bmcr speed v =
     (let v1 = (v AND NOT (BMCR_ANENABLE OR BMCR_PDOWN)) OR BMCR_LOOPBACK;
          v2 = (if speed = LOOPBACK_SPEED_1000 then (v1 OR BMCR_SPEED1000) AND NOT BMCR_SPEED100
                else if speed = LOOPBACK_SPEED_100 then (v1 AND NOT BMCR_SPEED1000) OR BMCR_SPEED100
                else if speed = LOOPBACK_SPEED_10 then (v1 AND NOT BMCR_SPEED1000) AND NOT BMCR_SPEED100
                else v1)
      in v2 OR BMCR_FULLDPLX)"

text \<open>\<open>phy_read\<close> returns the 16-bit register widened to \<open>int\<close>; \<open>phy_write\<close> takes
  a \<open>u16\<close>, so the \<open>int\<close> is truncated on the way back.\<close>

definition eth_setup_loopback_test :: "int \<Rightarrow> 'a sys_scheme \<Rightarrow> 'a sys_scheme" where
  "eth_setup_loopback_test speed s =
     (case get_current_phydev s of
        None \<Rightarrow> emit (PrintMsg ''eth_setup_loopback_test, can't get phydev'') s
      | Some (a, p) \<Rightarrow>
          (let s1 = writel (loopback_mac_conf speed (duplex p) (mac_conf s)) s;
               val = loopback_bmcr speed (ucast (phy_bmcr p))
           in phy_write a (ucast val) s1))"

section \<open>The contract: decoded speeds\<close>

text \<open>IEEE 802.3 22.2.4.1.3: BMCR bit 6 and bit 13 select 1000 (1,0), 100 (0,1) or
  10 Mb/s (0,0); (1,1) is reserved (decoded as 0 here).\<close>

definition bmcr_speed :: "u16 \<Rightarrow> int" where
  "bmcr_speed v =
     (if bit v 6 \<and> \<not> bit v 13 then 1000 else if \<not> bit v 6 \<and> bit v 13 then 100
      else if \<not> bit v 6 \<and> \<not> bit v 13 then 10 else 0)"

text \<open>The MAC's port select (bit 15) chooses MII for 10/100 and GMII for 1000; under MII
  the FES bit (bit 14) chooses 100 over 10.\<close>

definition mac_speed :: "u32 \<Rightarrow> int" where
  "mac_speed c = (if \<not> bit c 15 then 1000 else if bit c 14 then 100 else 10)"

section \<open>An example board\<close>

text \<open>A bus with one PHY at address 3 (full duplex, BMCR \<open>0x1140\<close>: autonegotiation
  on, full duplex, 1000 Mb/s) and a MAC left at 100 Mb/s (FES set).\<close>

definition example_phy :: phy_device where
  "example_phy = \<lparr>phy_addr = 3, duplex = 1, phy_bmcr = 0x1140\<rparr>"

definition example_sys :: sys where
  "example_sys = \<lparr>phymap = (\<lambda>_. None)(3 := Some example_phy), mac_conf = 0xC000,
     net_tx_ready = False, txbuf = (\<lambda>_. 0), events = []\<rparr>"

section \<open>Register bits\<close>

lemma bit_pow2_u32: "bit (2 ^ k :: u32) n \<longleftrightarrow> k < 32 \<and> n = k"
  by (auto simp: bit_exp_iff)

lemma bmcr_bit_consts [reg_simps]:
  "bit BMCR_SPEED1000 n \<longleftrightarrow> n = 6" "bit BMCR_FULLDPLX n \<longleftrightarrow> n = 8"
  "bit BMCR_PDOWN n \<longleftrightarrow> n = 11" "bit BMCR_ANENABLE n \<longleftrightarrow> n = 12"
  "bit BMCR_SPEED100 n \<longleftrightarrow> n = 13" "bit BMCR_LOOPBACK n \<longleftrightarrow> n = 14"
proof -
  have e: "BMCR_SPEED1000 = 2 ^ 6" "BMCR_FULLDPLX = 2 ^ 8" "BMCR_PDOWN = 2 ^ 11"
    "BMCR_ANENABLE = 2 ^ 12" "BMCR_SPEED100 = 2 ^ 13" "BMCR_LOOPBACK = 2 ^ 14"
    by (simp_all add: bmcr_bits)
  show "bit BMCR_SPEED1000 n \<longleftrightarrow> n = 6" "bit BMCR_FULLDPLX n \<longleftrightarrow> n = 8"
    "bit BMCR_PDOWN n \<longleftrightarrow> n = 11" "bit BMCR_ANENABLE n \<longleftrightarrow> n = 12"
    "bit BMCR_SPEED100 n \<longleftrightarrow> n = 13" "bit BMCR_LOOPBACK n \<longleftrightarrow> n = 14"
    unfolding e bit_pow2_u32 by auto
qed

lemma mac_bit_consts [reg_simps]:
  "bit MII_PORTSELECT n \<longleftrightarrow> n = 15" "bit FES_100 n \<longleftrightarrow> n = 14"
  "bit FULLDPLXMODE n \<longleftrightarrow> n = 11"
  unfolding mac_bits push_bit_of_1 bit_pow2_u32 by auto

lemma bmcr_bit:
  "bit (loopback_bmcr sp v) n \<longleftrightarrow>
     (if n = 14 \<or> n = 8 then True
      else if n = 12 \<or> n = 11 then False
      else if n = 6 then (if sp = 1000 then True else if sp = 100 \<or> sp = 10 then False else bit v 6)
      else if n = 13 then (if sp = 100 then True else if sp = 1000 \<or> sp = 10 then False else bit v 13)
      else bit v n)"
  by (auto simp: loopback_bmcr_def Let_def reg_simps bit_and_iff bit_or_iff bit_not_iff
      dest: bit_imp_le_length)

lemma mac_bit:
  "bit (loopback_mac_conf sp d c) n \<longleftrightarrow>
     (if n = 15 then sp \<noteq> 1000
      else if n = 14 then (sp = 100 \<or> bit c 14)
      else if n = 11 then (d \<noteq> 0 \<or> bit c 11)
      else bit c n)"
  by (auto simp: loopback_mac_conf_def Let_def reg_simps bit_and_iff bit_or_iff bit_not_iff
      dest: bit_imp_le_length)

lemma bit_ucast_u16_u32: "bit (ucast (v::u16) :: u32) n \<longleftrightarrow> n < 16 \<and> bit v n"
  by (auto simp: bit_unsigned_iff dest: bit_imp_le_length)

lemma bit_ucast_u32_u16: "bit (ucast (w::u32) :: u16) n \<longleftrightarrow> n < 16 \<and> bit w n"
  by (auto simp: bit_unsigned_iff)

lemma written_bmcr_bit:
  "bit (ucast (loopback_bmcr sp (ucast (v::u16))) :: u16) n \<longleftrightarrow>
     n < 16 \<and>
     (if n = 14 \<or> n = 8 then True
      else if n = 12 \<or> n = 11 then False
      else if n = 6 then (if sp = 1000 then True else if sp = 100 \<or> sp = 10 then False else bit v 6)
      else if n = 13 then (if sp = 100 then True else if sp = 1000 \<or> sp = 10 then False else bit v 13)
      else bit v n)"
  by (auto simp: bit_ucast_u32_u16 bmcr_bit bit_ucast_u16_u32)

section \<open>get_current_phydev\<close>

lemma phydev_scan_Some:
  "phydev_scan pm i = Some (k, p) \<longleftrightarrow>
     i \<le> k \<and> k < PHY_MAX_ADDR \<and> pm k = Some p \<and> (\<forall>j. i \<le> j \<and> j < k \<longrightarrow> pm j = None)"
proof (induction pm i rule: phydev_scan.induct)
  case (1 pm i)
  show ?case
  proof (cases "i < PHY_MAX_ADDR")
    case True
    show ?thesis
    proof (cases "pm i")
      case None
      with True "1.IH" show ?thesis
        by (auto simp: phydev_scan.simps [of pm i] Suc_le_eq dest: le_neq_implies_less)
    next
      case (Some q)
      with True show ?thesis
        by (auto simp: phydev_scan.simps [of pm i] dest: le_neq_implies_less)
    qed
  next
    case False
    then show ?thesis by (simp add: phydev_scan.simps [of pm i])
  qed
qed

lemma get_current_phydev_SomeD:
  "get_current_phydev s = Some (a, p) \<Longrightarrow> phymap s a = Some p"
  by (simp add: get_current_phydev_def phydev_scan_Some)

lemma example_sys_phydev: "get_current_phydev example_sys = Some (3, example_phy)"
  by (simp add: example_sys_def get_current_phydev_def phydev_scan.simps PHY_MAX_ADDR_def)

text \<open>C31: \<open>get_current_phydev\<close> returns the PHY at address \<open>a\<close> exactly when \<open>a\<close> is
  the least address below \<open>PHY_MAX_ADDR\<close> whose map entry is populated.\<close>

theorem get_current_phydev_first:
  "get_current_phydev s = Some (a, p) \<longleftrightarrow>
     a < PHY_MAX_ADDR \<and> phymap s a = Some p \<and> (\<forall>j<a. phymap s j = None)"
  by (auto simp: get_current_phydev_def phydev_scan_Some)

theorem get_current_phydev_first_witness:
  "get_current_phydev example_sys = Some (3, example_phy)"
  using get_current_phydev_first [of example_sys 3 example_phy]
  by (simp add: example_sys_def PHY_MAX_ADDR_def)

section \<open>eth_setup_loopback_test\<close>

lemma setup_fields:
  assumes "get_current_phydev s = Some (a, p)"
  shows "mac_conf (eth_setup_loopback_test speed s) = loopback_mac_conf speed (duplex p) (mac_conf s)"
    and "phymap (eth_setup_loopback_test speed s) a =
           Some (p\<lparr>phy_bmcr := ucast (loopback_bmcr speed (ucast (phy_bmcr p)))\<rparr>)"
  using assms get_current_phydev_SomeD [OF assms]
  by (simp_all add: eth_setup_loopback_test_def platform_defs Let_def)

text \<open>C32: with a PHY found and a speed of 10, 100 or 1000, the PHY's BMCR after
  \<open>eth_setup_loopback_test\<close> has loopback and full duplex on, autonegotiation and
  power-down off, selects the requested speed, and keeps every other bit.\<close>

theorem setup_phy_loopback:
  assumes "get_current_phydev s = Some (a, p)" and "speed \<in> {10, 100, 1000}"
  shows "\<exists>p'. phymap (eth_setup_loopback_test speed s) a = Some p' \<and>
     bmcr_speed (phy_bmcr p') = speed \<and>
     bit (phy_bmcr p') 14 \<and> bit (phy_bmcr p') 8 \<and>
     \<not> bit (phy_bmcr p') 12 \<and> \<not> bit (phy_bmcr p') 11 \<and>
     (\<forall>n. n \<notin> {6, 8, 11, 12, 13, 14} \<longrightarrow> bit (phy_bmcr p') n = bit (phy_bmcr p) n)"
  using assms(2) by (auto simp: setup_fields(2) [OF assms(1)] bmcr_speed_def written_bmcr_bit
      dest: bit_imp_le_length)

theorem setup_phy_loopback_witness:
  "bmcr_speed (phy_bmcr (the (phymap (eth_setup_loopback_test 1000 example_sys) 3))) = 1000"
  using setup_phy_loopback [OF example_sys_phydev, of 1000] by auto

text \<open>C33: with a PHY found, a requested speed of 100 or 1000 is also the speed the MAC
  configuration register selects afterwards.\<close>

theorem setup_mac_speed:
  assumes "get_current_phydev s = Some (a, p)" and "speed \<in> {100, 1000}"
  shows "mac_speed (mac_conf (eth_setup_loopback_test speed s)) = speed"
  using assms(2) by (auto simp: setup_fields(1) [OF assms(1)] mac_speed_def mac_bit)

theorem setup_mac_speed_witness:
  "mac_speed (mac_conf (eth_setup_loopback_test 1000 example_sys)) = 1000"
  using setup_mac_speed [OF example_sys_phydev, of 1000] by simp

text \<open>C34: a 10 Mb/s test never clears \<open>FES_100\<close>: when the MAC was left at 100 Mb/s
  (bit 14 set), after \<open>eth_setup_loopback_test 10\<close> the MAC still selects 100 Mb/s
  while the PHY is set to 10 Mb/s.\<close>

theorem setup_speed10_keeps_fes:
  assumes "get_current_phydev s = Some (a, p)" and "bit (mac_conf s) 14"
  shows "mac_speed (mac_conf (eth_setup_loopback_test 10 s)) = 100 \<and>
    (\<exists>p'. phymap (eth_setup_loopback_test 10 s) a = Some p' \<and> bmcr_speed (phy_bmcr p') = 10)"
  using assms by (auto simp: setup_fields [OF assms(1)] mac_speed_def mac_bit bmcr_speed_def
      written_bmcr_bit)

theorem setup_speed10_keeps_fes_witness:
  "mac_speed (mac_conf (eth_setup_loopback_test 10 example_sys)) = 100"
  using setup_speed10_keeps_fes [OF example_sys_phydev] by (simp add: example_sys_def)

text \<open>C35: \<open>FULLDPLXMODE\<close> is only ever set: for a half-duplex PHY (\<open>duplex = 0\<close>) and a
  MAC left in half duplex, the MAC stays half duplex while the PHY's BMCR is forced to
  full duplex.\<close>

theorem setup_duplex_mismatch:
  assumes "get_current_phydev s = Some (a, p)" and "duplex p = 0" and "\<not> bit (mac_conf s) 11"
  shows "\<not> bit (mac_conf (eth_setup_loopback_test speed s)) 11 \<and>
    (\<exists>p'. phymap (eth_setup_loopback_test speed s) a = Some p' \<and> bit (phy_bmcr p') 8)"
  using assms by (auto simp: setup_fields [OF assms(1)] mac_bit written_bmcr_bit)

theorem setup_duplex_mismatch_witness:
  "\<not> bit (mac_conf (eth_setup_loopback_test 100
      (example_sys\<lparr>phymap := (\<lambda>_. None)(3 := Some (example_phy\<lparr>duplex := 0\<rparr>))\<rparr>))) 11"
proof -
  have "get_current_phydev (example_sys\<lparr>phymap := (\<lambda>_. None)(3 := Some (example_phy\<lparr>duplex := 0\<rparr>))\<rparr>)
        = Some (3, example_phy\<lparr>duplex := 0\<rparr>)"
    by (simp add: get_current_phydev_def phydev_scan.simps PHY_MAX_ADDR_def)
  from setup_duplex_mismatch [OF this] show ?thesis
    by (simp add: example_sys_def example_phy_def)
qed

text \<open>C36: without a PHY on the bus, \<open>eth_setup_loopback_test\<close> only prints a message:
  neither the MAC nor any PHY register is written, and the caller is not told.\<close>

theorem setup_no_phy:
  assumes "get_current_phydev s = None"
  shows "eth_setup_loopback_test speed s =
    emit (PrintMsg ''eth_setup_loopback_test, can't get phydev'') s"
  using assms by (simp add: eth_setup_loopback_test_def)

theorem setup_no_phy_witness:
  "eth_setup_loopback_test 1000 (example_sys\<lparr>phymap := (\<lambda>_. None)\<rparr>) =
    emit (PrintMsg ''eth_setup_loopback_test, can't get phydev'') (example_sys\<lparr>phymap := (\<lambda>_. None)\<rparr>)"
proof -
  have "get_current_phydev (example_sys\<lparr>phymap := (\<lambda>_. None)\<rparr>) = None"
    by (simp add: get_current_phydev_def phydev_scan.simps PHY_MAX_ADDR_def)
  from setup_no_phy [OF this] show ?thesis .
qed

end
