(* ===== verification/LoopbackRun.thy ===== *)
theory LoopbackRun
  imports Frame PhySetup
begin

text \<open>
  The delay-sweep test runner \<open>eth_run_loopback_test\<close> of
  \<open>src/test/rockchip/test-eth.c\<close>. Its locals \<open>success\<close> and \<open>ret\<close> extend the system
  state (\<open>lb_state\<close>), so the platform operations apply to the loop state directly.
  One iteration (\<open>lb_iteration\<close>: set the delay lines, tag, send, wait, receive,
  classify, free) is composed by the inner loop \<open>rx_loop\<close> and the outer loop
  \<open>tx_loop\<close>, both counted loops with their termination measures; the single-shot
  mode leaves both loops from inside through the early \<open>return\<close>, which the loops
  report as \<open>Some ret\<close>.
\<close>

unbundle bit_operations_syntax

section \<open>Loop state and constants\<close>

record lb_state = sys +
  success :: int
  ret :: int

definition MAX_TX_DELAY_LINE :: nat where "MAX_TX_DELAY_LINE = 0x7F"
definition MAX_RX_DELAY_LINE :: nat where "MAX_RX_DELAY_LINE = 0x7F"

lemmas delay_line_bounds = MAX_TX_DELAY_LINE_def MAX_RX_DELAY_LINE_def

text \<open>The settle time after sending: 2 ms at 10 and 100 Mb/s, 200 us otherwise.\<close>

definition settle_delay :: "int \<Rightarrow> nat" where
  "settle_delay speed =
     (if speed = LOOPBACK_SPEED_10 then 2000 else if speed = LOOPBACK_SPEED_100 then 2000 else 200)"

section \<open>One iteration\<close>

text \<open>The receive and its classification: \<open>*\<close> for a frame equal to the one sent,
  \<open>x\<close> for another frame, \<open>?\<close> for nothing received, a space for a driver error; then
  \<open>free_pkt\<close> when the driver has one and the length is not negative. The test
  \<open>!check_lbtest_frame(...)\<close> holds when the check returns 0; its undefined case
  cannot arise at the size 1514 (\<open>check_lbtest_frame_small\<close>).\<close>

definition lb_receive :: "env \<Rightarrow> lb_state \<Rightarrow> lb_state" where
  "lb_receive E s =
     (let (length, rx_packet) = recv E (events s);
          s1 = (if 0 < length then
                  (if check_lbtest_frame (txbuf s) rx_packet (of_nat LOOPBACK_TEST_FRAME_SIZE) = Some 0
                   then (emit (PrintMark CHR ''*'') s)\<lparr>success := success s + 1, ret := 0\<rparr>
                   else (emit (PrintMark CHR ''x'') s)\<lparr>ret := - EINVAL\<rparr>)
                else if length = 0 then (emit (PrintMark CHR ''?'') s)\<lparr>ret := - EBUSY\<rparr>
                else (emit (PrintMark CHR '' '') s)\<lparr>ret := length\<rparr>)
      in if 0 \<le> length \<and> has_free_pkt E then emit (FreePkt length) s1 else s1)"

definition lb_iteration :: "env \<Rightarrow> int \<Rightarrow> bool \<Rightarrow> nat \<Rightarrow> nat \<Rightarrow> lb_state \<Rightarrow> lb_state" where
  "lb_iteration E speed delay_test i j s =
     (let s1 = (if delay_test then gmac_set_rgmii (of_nat i) (of_nat j) s else s);
          s2 = s1\<lparr>txbuf := alter_lbtest_frame (txbuf s1) LOOPBACK_TEST_HDR_SIZE
                             (of_nat LOOPBACK_TEST_DATA_SIZE) (of_nat i) (of_nat j)\<rparr>;
          s3 = net_send_packet LOOPBACK_TEST_FRAME_SIZE s2;
          s4 = udelay (settle_delay speed) s3
      in lb_receive E s4)"

section \<open>The two loops\<close>

function rx_loop :: "env \<Rightarrow> int \<Rightarrow> bool \<Rightarrow> nat \<Rightarrow> nat \<Rightarrow> lb_state \<Rightarrow> int option \<times> lb_state" where
  "rx_loop E speed delay_test i j s =
     (if j < MAX_RX_DELAY_LINE then
        (let s1 = lb_iteration E speed delay_test i j s in
         if \<not> delay_test then (Some (ret s1), emit PrintNewline s1)
         else rx_loop E speed delay_test i (Suc j) s1)
      else (None, s))"
  by pat_completeness auto
termination
  by (relation "measure (\<lambda>(E, speed, delay_test, i, j, s). MAX_RX_DELAY_LINE - j)") auto

function tx_loop :: "env \<Rightarrow> int \<Rightarrow> bool \<Rightarrow> nat \<Rightarrow> lb_state \<Rightarrow> int option \<times> lb_state" where
  "tx_loop E speed delay_test i s =
     (if i < MAX_TX_DELAY_LINE then
        (let s1 = (if delay_test then emit (PrintRow i) s else s) in
         case rx_loop E speed delay_test i 0 s1 of
           (Some r, s2) \<Rightarrow> (Some r, s2)
         | (None, s2) \<Rightarrow> tx_loop E speed delay_test (Suc i) (emit PrintNewline s2))
      else (None, s))"
  by pat_completeness auto
termination
  by (relation "measure (\<lambda>(E, speed, delay_test, i, s). MAX_TX_DELAY_LINE - i)") auto

declare rx_loop.simps [simp del] tx_loop.simps [simp del]

section \<open>eth_run_loopback_test\<close>

text \<open>The frame is built once in \<open>net_tx_packet\<close>: the header at offset 0, the
  payload at \<open>tx_pkt = net_tx_packet + 14\<close>. \<open>ret0\<close> is the indeterminate value
  the uninitialised local \<open>ret\<close> starts with.\<close>

definition lb_base_frame :: "env \<Rightarrow> buf \<Rightarrow> buf" where
  "lb_base_frame E m =
     create_lbtest_frame
       (fst (net_set_ether m 0 net_bcast_ethaddr (net_ethaddr E) (of_nat LOOPBACK_TEST_DATA_SIZE)))
       LOOPBACK_TEST_HDR_SIZE (of_nat LOOPBACK_TEST_DATA_SIZE)"

definition eth_run_loopback_test :: "env \<Rightarrow> int \<Rightarrow> bool \<Rightarrow> int \<Rightarrow> sys \<Rightarrow> int \<times> sys" where
  "eth_run_loopback_test E speed delay_test ret0 s =
     (if \<not> net_tx_ready s then (- EINVAL, s)
      else
        (let s1 = sys.extend (s\<lparr>txbuf := lb_base_frame E (txbuf s)\<rparr>) (lb_state.fields 0 ret0);
             s2 = udelay 50000 s1
         in case tx_loop E speed delay_test 0 s2 of
              (Some r, s3) \<Rightarrow> (r, sys.truncate s3)
            | (None, s3) \<Rightarrow>
                (if delay_test \<and> 0 < success s3 then 0 else ret s3, sys.truncate s3)))"

section \<open>Vocabulary of the analysis\<close>

text \<open>The classification of one receive: the character printed and the value given
  to \<open>ret\<close>, from the returned length and whether the frames agree.\<close>

definition lb_outcome :: "int \<Rightarrow> bool \<Rightarrow> char \<times> int" where
  "lb_outcome len same =
     (if 0 < len then (if same then (CHR ''*'', 0) else (CHR ''x'', - EINVAL))
      else if len = 0 then (CHR ''?'', - EBUSY) else (CHR '' '', len))"

definition free_events :: "env \<Rightarrow> int \<Rightarrow> event list" where
  "free_events E len = (if 0 \<le> len \<and> has_free_pkt E then [FreePkt len] else [])"

abbreviation iter_frame :: "buf \<Rightarrow> nat \<Rightarrow> nat \<Rightarrow> buf" where
  "iter_frame m i j \<equiv> alter_lbtest_frame m LOOPBACK_TEST_HDR_SIZE (of_nat LOOPBACK_TEST_DATA_SIZE)
                         (of_nat i) (of_nat j)"

text \<open>What an iteration logs before the receive: the delay-line setting (sweep only),
  the frame sent and the settle delay.\<close>

definition iter_sent :: "bool \<Rightarrow> int \<Rightarrow> nat \<Rightarrow> nat \<Rightarrow> buf \<Rightarrow> event list" where
  "iter_sent dt sp i j m = (if dt then [SetRgmii (of_nat i) (of_nat j)] else []) @
     [SendPacket (iter_frame m i j) LOOPBACK_TEST_FRAME_SIZE, Udelay (settle_delay sp)]"

definition first_frame :: "env \<Rightarrow> buf \<Rightarrow> buf" where
  "first_frame E m = iter_frame (lb_base_frame E m) 0 0"

text \<open>One row of the sweep: the row label, the 127 iterations, the newline.\<close>

definition sweep_row :: "env \<Rightarrow> int \<Rightarrow> nat \<Rightarrow> lb_state \<Rightarrow> lb_state" where
  "sweep_row E sp i s =
     emit PrintNewline (foldl (\<lambda>t j. lb_iteration E sp True i j t) (emit (PrintRow i) s)
                         [0..<MAX_RX_DELAY_LINE])"

definition stars :: "event list \<Rightarrow> nat" where
  "stars evs = count_list evs (PrintMark (CHR ''*''))"

text \<open>The counter invariant: \<open>success\<close> is not negative, and \<open>ret = 0\<close> only after a
  success. A step of the loop is good when it keeps \<open>success\<close> equal to the number of
  \<open>*\<close> it prints, only appends to the log, and leaves \<open>lb_ok\<close> behind.\<close>

definition lb_ok :: "lb_state \<Rightarrow> bool" where
  "lb_ok t \<longleftrightarrow> 0 \<le> success t \<and> (ret t = 0 \<longrightarrow> 0 < success t)"

definition lb_step_ok :: "(lb_state \<Rightarrow> lb_state) \<Rightarrow> bool" where
  "lb_step_ok g \<longleftrightarrow>
     (\<forall>t. int (stars (events (g t))) - success (g t) = int (stars (events t)) - success t) \<and>
     (\<forall>t. \<exists>X. events (g t) = events t @ X) \<and>
     (\<forall>t. 0 \<le> success t \<longrightarrow> lb_ok (g t))"

text \<open>A loopback device: the driver returns the last frame sent, at its full length.\<close>

fun last_sent :: "event list \<Rightarrow> (buf \<times> nat) option" where
  "last_sent [] = None"
| "last_sent (e # es) =
     (case last_sent es of Some r \<Rightarrow> Some r
      | None \<Rightarrow> (case e of SendPacket b n \<Rightarrow> Some (b, n) | _ \<Rightarrow> None))"

definition echo_recv :: "event list \<Rightarrow> int \<times> buf" where
  "echo_recv evs = (case last_sent evs of Some (b, n) \<Rightarrow> (int n, b) | None \<Rightarrow> (0, \<lambda>_. 0))"

definition echo_env :: env where
  "echo_env = \<lparr>eth_dev = Some True, net_ethaddr = (\<lambda>a. of_nat (a + 1)), eth_init_ret = 0,
     recv = echo_recv, has_free_pkt = True, cli_ret = (\<lambda>_. 0)\<rparr>"

definition ready_sys :: sys where
  "ready_sys = \<lparr>phymap = (\<lambda>_. None), mac_conf = 0, net_tx_ready = True,
     txbuf = (\<lambda>_. 0), events = []\<rparr>"

text \<open>The loop state when the first iteration starts.\<close>

definition lb_start :: "env \<Rightarrow> int \<Rightarrow> sys \<Rightarrow> lb_state" where
  "lb_start E r0 s =
     udelay 50000 (sys.extend (s\<lparr>txbuf := lb_base_frame E (txbuf s)\<rparr>) (lb_state.fields 0 r0))"

section \<open>One iteration\<close>

lemma lb_emit_fields [simp]:
  "success (emit e s) = success s" "ret (emit e s) = ret s"
  by (simp_all add: emit_def)

lemma stars_append [simp]: "stars (xs @ ys) = stars xs + stars ys"
  by (simp add: stars_def)

lemma stars_Cons [simp]:
  "stars [] = 0"
  "stars (e # evs) = (if e = PrintMark (CHR ''*'') then 1 else 0) + stars evs"
  by (simp_all add: stars_def)

lemma stars_iter [simp]: "stars (iter_sent dt sp i j m) = 0" "stars (free_events E len) = 0"
  by (simp_all add: iter_sent_def free_events_def)

lemma lb_outcome_zero: "snd (lb_outcome len b) = 0 \<longleftrightarrow> fst (lb_outcome len b) = CHR ''*''"
  by (auto simp: lb_outcome_def)

lemma lb_receive_fields:
  assumes "recv E (events s) = (len, rx)"
  shows "ret (lb_receive E s) = snd (lb_outcome len (frames_agree (txbuf s) rx LOOPBACK_TEST_FRAME_SIZE))"
    and "success (lb_receive E s) = success s +
           (if fst (lb_outcome len (frames_agree (txbuf s) rx LOOPBACK_TEST_FRAME_SIZE)) = CHR ''*''
            then 1 else 0)"
    and "events (lb_receive E s) = events s @
           PrintMark (fst (lb_outcome len (frames_agree (txbuf s) rx LOOPBACK_TEST_FRAME_SIZE)))
           # free_events E len"
    and "txbuf (lb_receive E s) = txbuf s"
    and "net_tx_ready (lb_receive E s) = net_tx_ready s"
  using assms by (auto simp: lb_receive_def lb_outcome_def free_events_def check_lbtest_frame_small Let_def)

lemma lb_iteration_unfold:
  "lb_iteration E sp dt i j s =
     lb_receive E (s\<lparr>txbuf := iter_frame (txbuf s) i j,
                    events := events s @ iter_sent dt sp i j (txbuf s)\<rparr>)"
  by (simp add: lb_iteration_def iter_sent_def platform_defs Let_def)

lemma lb_iteration_fields:
  assumes "recv E (events t @ iter_sent dt sp i j (txbuf t)) = (len, rx)"
  shows "ret (lb_iteration E sp dt i j t) =
           snd (lb_outcome len (frames_agree (iter_frame (txbuf t) i j) rx LOOPBACK_TEST_FRAME_SIZE))"
    and "success (lb_iteration E sp dt i j t) = success t +
           (if fst (lb_outcome len (frames_agree (iter_frame (txbuf t) i j) rx LOOPBACK_TEST_FRAME_SIZE))
               = CHR ''*'' then 1 else 0)"
    and "events (lb_iteration E sp dt i j t) = events t @ iter_sent dt sp i j (txbuf t) @
           PrintMark (fst (lb_outcome len (frames_agree (iter_frame (txbuf t) i j) rx LOOPBACK_TEST_FRAME_SIZE)))
           # free_events E len"
    and "txbuf (lb_iteration E sp dt i j t) = iter_frame (txbuf t) i j"
    and "net_tx_ready (lb_iteration E sp dt i j t) = net_tx_ready t"
  using assms by (simp_all add: lb_iteration_unfold lb_receive_fields)

lemma lb_iteration_step_ok: "lb_step_ok (\<lambda>t. lb_iteration E sp dt i j t)"
  unfolding lb_step_ok_def
proof (intro conjI allI impI)
  fix t :: lb_state
  obtain len rx where r: "recv E (events t @ iter_sent dt sp i j (txbuf t)) = (len, rx)"
    by (cases "recv E (events t @ iter_sent dt sp i j (txbuf t))")
  show "int (stars (events (lb_iteration E sp dt i j t))) - success (lb_iteration E sp dt i j t) =
     int (stars (events t)) - success t"
    by (simp add: lb_iteration_fields [OF r])
  show "\<exists>X. events (lb_iteration E sp dt i j t) = events t @ X"
    by (simp add: lb_iteration_fields [OF r])
  show "lb_ok (lb_iteration E sp dt i j t)" if "0 \<le> success t"
    using that by (auto simp: lb_ok_def lb_iteration_fields [OF r] lb_outcome_zero)
qed

section \<open>Composing good steps\<close>

lemma step_ok_comp: "lb_step_ok g1 \<Longrightarrow> lb_step_ok g2 \<Longrightarrow> lb_step_ok (\<lambda>t. g2 (g1 t))"
  unfolding lb_step_ok_def lb_ok_def by (metis append.assoc)

lemma step_ok_foldl:
  assumes "\<And>x. lb_step_ok (\<lambda>t. f t x)" and "xs \<noteq> []"
  shows "lb_step_ok (\<lambda>t. foldl f t xs)"
  using assms(2)
proof (induction xs rule: list_nonempty_induct)
  case (cons x xs)
  then show ?case using step_ok_comp [OF assms(1) [of x], of "\<lambda>t. foldl f t xs"] by simp
qed (simp add: assms(1))

lemma lb_step_okD:
  assumes "lb_step_ok g"
  shows "int (stars (events (g t))) - success (g t) = int (stars (events t)) - success t"
    and "\<exists>X. events (g t) = events t @ X"
    and "0 \<le> success t \<Longrightarrow> lb_ok (g t)"
  using assms unfolding lb_step_ok_def by blast+

lemma step_ok_frame:
  assumes g: "lb_step_ok g" and e: "e \<noteq> PrintMark (CHR ''*'')" and e': "e' \<noteq> PrintMark (CHR ''*'')"
  shows "lb_step_ok (\<lambda>t. emit e' (g (emit e t)))"
  unfolding lb_step_ok_def
proof (intro conjI allI impI)
  fix t :: lb_state
  show "int (stars (events (emit e' (g (emit e t))))) - success (emit e' (g (emit e t))) =
        int (stars (events t)) - success t"
    using lb_step_okD(1) [OF g, of "emit e t"] e e' by simp
  obtain X where "events (g (emit e t)) = events (emit e t) @ X"
    using lb_step_okD(2) [OF g] by blast
  then show "\<exists>X. events (emit e' (g (emit e t))) = events t @ X"
    by simp
  show "lb_ok (emit e' (g (emit e t)))" if "0 \<le> success t"
    using lb_step_okD(3) [OF g, of "emit e t"] that by (simp add: lb_ok_def)
qed

lemma sweep_row_step_ok: "lb_step_ok (sweep_row E sp i)"
  unfolding sweep_row_def
  by (rule step_ok_frame [OF step_ok_foldl [OF lb_iteration_step_ok]]) (simp_all add: delay_line_bounds)

lemma sweep_step_ok: "lb_step_ok (\<lambda>t. foldl (\<lambda>t i. sweep_row E sp i t) t [0..<MAX_TX_DELAY_LINE])"
  by (rule step_ok_foldl [OF sweep_row_step_ok]) (simp add: delay_line_bounds)

section \<open>The loops\<close>

lemma rx_loop_single:
  "rx_loop E sp False i 0 s = (Some (ret (lb_iteration E sp False i 0 s)),
                               emit PrintNewline (lb_iteration E sp False i 0 s))"
  by (simp add: rx_loop.simps [of E sp False i 0 s] Let_def delay_line_bounds)

lemma tx_loop_single:
  "tx_loop E sp False 0 s = (Some (ret (lb_iteration E sp False 0 0 s)),
                             emit PrintNewline (lb_iteration E sp False 0 0 s))"
  by (simp add: tx_loop.simps [of E sp False 0 s] rx_loop_single delay_line_bounds)

lemma rx_loop_sweep_gen:
  "dt \<Longrightarrow> j \<le> MAX_RX_DELAY_LINE \<Longrightarrow>
   rx_loop E sp dt i j s = (None, foldl (\<lambda>t j. lb_iteration E sp dt i j t) s [j..<MAX_RX_DELAY_LINE])"
proof (induction E sp dt i j s rule: rx_loop.induct)
  case (1 E sp dt i j s)
  show ?case
  proof (cases "j < MAX_RX_DELAY_LINE")
    case True
    from "1.prems"(1) have dt: "dt = True" by simp
    from "1.IH" [OF True] True "1.prems"(1) show ?thesis
      by (simp add: dt rx_loop.simps [of E sp True i j s] upt_conv_Cons [OF True] Let_def)
  next
    case False
    then show ?thesis by (subst rx_loop.simps) simp
  qed
qed

lemmas rx_loop_sweep = rx_loop_sweep_gen [OF TrueI]

lemma tx_loop_sweep_gen:
  "dt \<Longrightarrow> i \<le> MAX_TX_DELAY_LINE \<Longrightarrow>
   tx_loop E sp dt i s = (None, foldl (\<lambda>t i. sweep_row E sp i t) s [i..<MAX_TX_DELAY_LINE])"
proof (induction E sp dt i s rule: tx_loop.induct)
  case (1 E sp dt i s)
  show ?case
  proof (cases "i < MAX_TX_DELAY_LINE")
    case True
    have rx: "rx_loop E sp True i 0 (emit (PrintRow i) s) =
      (None, foldl (\<lambda>t j. lb_iteration E sp True i j t) (emit (PrintRow i) s) [0..<MAX_RX_DELAY_LINE])"
      by (rule rx_loop_sweep) (simp add: delay_line_bounds)
    from True have "Suc i \<le> MAX_TX_DELAY_LINE" by simp
    from "1.prems"(1) have dt: "dt = True" by simp
    from "1.IH" [OF True] True rx \<open>Suc i \<le> MAX_TX_DELAY_LINE\<close> "1.prems"(1) show ?thesis
      by (simp add: dt tx_loop.simps [of E sp True i s] upt_conv_Cons [OF True] sweep_row_def Let_def)
  next
    case False
    then show ?thesis by (subst tx_loop.simps) simp
  qed
qed

lemmas tx_loop_sweep = tx_loop_sweep_gen [OF TrueI]

section \<open>The test runner\<close>

lemma lb_start_fields:
  "events (lb_start E r0 s) = events s @ [Udelay 50000]"
  "txbuf (lb_start E r0 s) = lb_base_frame E (txbuf s)"
  "success (lb_start E r0 s) = 0"
  by (simp_all add: lb_start_def udelay_def emit_def sys.defs lb_state.defs)

lemma run_single_shot:
  "net_tx_ready s \<Longrightarrow>
   fst (eth_run_loopback_test E sp False r0 s) = ret (lb_iteration E sp False 0 0 (lb_start E r0 s))"
  by (simp add: eth_run_loopback_test_def tx_loop_single lb_start_def Let_def)

lemma run_sweep:
  "net_tx_ready s \<Longrightarrow>
   eth_run_loopback_test E sp True r0 s =
     (let s3 = foldl (\<lambda>t i. sweep_row E sp i t) (lb_start E r0 s) [0..<MAX_TX_DELAY_LINE]
      in (if 0 < success s3 then 0 else ret s3, sys.truncate s3))"
  by (simp add: eth_run_loopback_test_def tx_loop_sweep lb_start_def Let_def)

lemma single_shot_ret:
  assumes "net_tx_ready s"
    and "recv E (events s @ [Udelay 50000, SendPacket (first_frame E (txbuf s)) LOOPBACK_TEST_FRAME_SIZE,
                             Udelay (settle_delay sp)]) = (len, rx)"
  shows "fst (eth_run_loopback_test E sp False r0 s) =
    (if 0 < len then (if frames_agree (first_frame E (txbuf s)) rx LOOPBACK_TEST_FRAME_SIZE then 0 else - EINVAL)
     else if len = 0 then - EBUSY else len)"
proof -
  have "recv E (events (lb_start E r0 s) @ iter_sent False sp 0 0 (txbuf (lb_start E r0 s))) = (len, rx)"
    using assms(2) by (simp add: lb_start_fields iter_sent_def first_frame_def)
  from lb_iteration_fields(1) [OF this] show ?thesis
    by (simp add: run_single_shot [OF assms(1)] lb_start_fields first_frame_def lb_outcome_def)
qed

lemma first_frame_dest: "first_frame E m 0 = 0xFF"
  by (simp add: first_frame_def lb_base_frame_def alter_lbtest_frame_half create_lbtest_frame_half
      net_set_ether_def memset_apply memcpy_apply net_bcast_ethaddr_def)

lemma last_sent_append:
  "last_sent (xs @ ys) = (case last_sent ys of Some r \<Rightarrow> Some r | None \<Rightarrow> last_sent xs)"
  by (induction xs) (auto split: option.splits)

lemma echo_single_shot_zero:
  assumes "net_tx_ready s" and "recv E = echo_recv"
  shows "fst (eth_run_loopback_test E sp False r0 s) = 0"
proof -
  let ?evs = "events s @ [Udelay 50000, SendPacket (first_frame E (txbuf s)) LOOPBACK_TEST_FRAME_SIZE,
                          Udelay (settle_delay sp)]"
  have "recv E ?evs = (int LOOPBACK_TEST_FRAME_SIZE, first_frame E (txbuf s))"
    by (simp add: assms(2) echo_recv_def last_sent_append)
  from single_shot_ret [OF assms(1) this] show ?thesis
    by (simp add: frames_agree_iff)
qed

lemma sweep_result_iff:
  assumes "net_tx_ready s"
  shows "fst (eth_run_loopback_test E sp True r0 s) = 0 \<longleftrightarrow>
    PrintMark (CHR ''*'') \<in> set (drop (length (events s)) (events (snd (eth_run_loopback_test E sp True r0 s))))"
proof -
  define s3 where "s3 = foldl (\<lambda>t i. sweep_row E sp i t) (lb_start E r0 s) [0..<MAX_TX_DELAY_LINE]"
  have ok: "int (stars (events s3)) - success s3 = int (stars (events (lb_start E r0 s)))"
    "\<exists>X. events s3 = events (lb_start E r0 s) @ X" "lb_ok s3"
    using lb_step_okD [OF sweep_step_ok, where t = "lb_start E r0 s"]
    unfolding s3_def by (simp_all add: lb_start_fields)
  then obtain X where X: "events s3 = events s @ Udelay 50000 # X"
    by (auto simp: lb_start_fields)
  have "0 < stars X \<longleftrightarrow> PrintMark (CHR ''*'') \<in> set X"
    using count_list_0_iff [of X "PrintMark (CHR ''*'')"] by (auto simp: stars_def)
  with ok(1,3) X show ?thesis
    by (auto simp: run_sweep [OF assms] s3_def [symmetric] Let_def lb_ok_def sys.defs lb_start_fields)
qed

text \<open>The last pair of the sweep, (126, 126), is the last iteration.\<close>

lemma sweep_last_iteration:
  "foldl (\<lambda>t i. sweep_row E sp i t) t [0..<MAX_TX_DELAY_LINE] =
   emit PrintNewline (lb_iteration E sp True 126 126
     (foldl (\<lambda>t j. lb_iteration E sp True 126 j t)
        (emit (PrintRow 126) (foldl (\<lambda>t i. sweep_row E sp i t) t [0..<126])) [0..<126]))"
proof -
  have tx: "[0..<MAX_TX_DELAY_LINE] = [0..<126] @ [126]"
   and rx: "[0..<MAX_RX_DELAY_LINE] = [0..<126] @ [126]"
    by (simp_all add: delay_line_bounds upt_Suc_append [symmetric])
  show ?thesis by (simp add: tx rx sweep_row_def)
qed

text \<open>C3: the single-shot test (\<open>rktest eth loopback\<close>) reports a match, \<open>0\<close>, when the
  device loops the frame back: whatever the speed, the board, the earlier log.\<close>

theorem single_shot_echo_passes:
  assumes "net_tx_ready s" and "recv E = echo_recv"
  shows "fst (eth_run_loopback_test E sp False r0 s) = 0"
  using assms by (rule echo_single_shot_zero)

theorem single_shot_echo_passes_witness:
  "fst (eth_run_loopback_test echo_env 1000 False 0 ready_sys) = 0"
  by (rule single_shot_echo_passes) (simp_all add: ready_sys_def echo_env_def)

text \<open>C4: in single-shot mode \<open>eth_run_loopback_test\<close> sends one frame (delay pair
  (0,0), no delay-line change) and returns the classification of the one receive:
  0 for a frame equal to the one sent over all 1514 bytes, \<open>-EINVAL\<close> for another
  frame, \<open>-EBUSY\<close> when nothing arrived, and the driver's negative length otherwise.\<close>

theorem single_shot_result:
  assumes "net_tx_ready s"
    and "recv E (events s @ [Udelay 50000, SendPacket (first_frame E (txbuf s)) LOOPBACK_TEST_FRAME_SIZE,
                             Udelay (settle_delay sp)]) = (len, rx)"
  shows "fst (eth_run_loopback_test E sp False r0 s) =
    (if 0 < len then (if frames_agree (first_frame E (txbuf s)) rx LOOPBACK_TEST_FRAME_SIZE then 0 else - EINVAL)
     else if len = 0 then - EBUSY else len)"
  using assms by (rule single_shot_ret)

theorem single_shot_result_witness:
  "fst (eth_run_loopback_test (echo_env\<lparr>recv := (\<lambda>_. (1514, (\<lambda>_. 0)))\<rparr>) 100 False 7 ready_sys) = - 22"
proof -
  have "\<not> frames_agree (first_frame E m) (\<lambda>_. 0) 1514" for E m
  proof
    assume "frames_agree (first_frame E m) (\<lambda>_. 0) 1514"
    then have "first_frame E m 0 = 0" by (simp add: frames_agree_iff)
    with first_frame_dest [of E m] show False by simp
  qed
  with single_shot_result [of "ready_sys" "echo_env\<lparr>recv := (\<lambda>_. (1514, (\<lambda>_. 0)))\<rparr>" 100 1514 "\<lambda>_. 0" 7]
  show ?thesis by (simp add: ready_sys_def)
qed

text \<open>C5: in sweep mode (\<open>rktest eth delaytest\<close>) the result is 0 exactly when at least
  one of the delay-line pairs printed \<open>*\<close>, that is when at least one looped-back
  frame matched; otherwise it is the code of the last pair's receive, (126, 126):
  \<open>-EINVAL\<close> for a wrong frame, \<open>-EBUSY\<close> for none, or the driver's negative
  length, as the log ends with that pair's frame, mark and free.\<close>

theorem sweep_result:
  assumes "net_tx_ready s"
  shows "\<exists>pre m len rx.
     recv E (pre @ iter_sent True sp 126 126 m) = (len, rx) \<and>
     events (snd (eth_run_loopback_test E sp True r0 s)) =
       pre @ iter_sent True sp 126 126 m @
       PrintMark (fst (lb_outcome len (frames_agree (iter_frame m 126 126) rx LOOPBACK_TEST_FRAME_SIZE)))
       # free_events E len @ [PrintNewline] \<and>
     fst (eth_run_loopback_test E sp True r0 s) =
       (if PrintMark (CHR ''*'') \<in> set (drop (length (events s)) (events (snd (eth_run_loopback_test E sp True r0 s))))
        then 0 else snd (lb_outcome len (frames_agree (iter_frame m 126 126) rx LOOPBACK_TEST_FRAME_SIZE)))"
proof -
  define u where "u = foldl (\<lambda>t j. lb_iteration E sp True 126 j t)
        (emit (PrintRow 126) (foldl (\<lambda>t i. sweep_row E sp i t) (lb_start E r0 s) [0..<126])) [0..<126]"
  obtain len rx where r: "recv E (events u @ iter_sent True sp 126 126 (txbuf u)) = (len, rx)"
    by (cases "recv E (events u @ iter_sent True sp 126 126 (txbuf u))")
  have run: "eth_run_loopback_test E sp True r0 s =
      (if 0 < success (lb_iteration E sp True 126 126 u) then 0 else ret (lb_iteration E sp True 126 126 u),
       sys.truncate (emit PrintNewline (lb_iteration E sp True 126 126 u)))"
    by (simp add: run_sweep [OF assms] sweep_last_iteration u_def Let_def)
  have iff: "fst (eth_run_loopback_test E sp True r0 s) = 0 \<longleftrightarrow>
    PrintMark (CHR ''*'') \<in> set (drop (length (events s)) (events (snd (eth_run_loopback_test E sp True r0 s))))"
    by (rule sweep_result_iff [OF assms])
  have fst_run: "fst (eth_run_loopback_test E sp True r0 s) =
      (if 0 < success (lb_iteration E sp True 126 126 u) then 0
       else snd (lb_outcome len (frames_agree (iter_frame (txbuf u) 126 126) rx LOOPBACK_TEST_FRAME_SIZE)))"
    using run lb_iteration_fields(1) [OF r] by simp
  show ?thesis
  proof (intro exI conjI)
    show "recv E (events u @ iter_sent True sp 126 126 (txbuf u)) = (len, rx)" by (rule r)
    show "events (snd (eth_run_loopback_test E sp True r0 s)) =
       events u @ iter_sent True sp 126 126 (txbuf u) @
       PrintMark (fst (lb_outcome len (frames_agree (iter_frame (txbuf u) 126 126) rx LOOPBACK_TEST_FRAME_SIZE)))
       # free_events E len @ [PrintNewline]"
      by (simp add: run lb_iteration_fields(3) [OF r] sys.defs emit_def)
    show "fst (eth_run_loopback_test E sp True r0 s) =
       (if PrintMark (CHR ''*'') \<in> set (drop (length (events s)) (events (snd (eth_run_loopback_test E sp True r0 s))))
        then 0 else snd (lb_outcome len (frames_agree (iter_frame (txbuf u) 126 126) rx LOOPBACK_TEST_FRAME_SIZE)))"
      using iff fst_run by auto
  qed
qed

theorem sweep_result_witness:
  "\<exists>pre m len rx.
     recv echo_env (pre @ iter_sent True 1000 126 126 m) = (len, rx) \<and>
     events (snd (eth_run_loopback_test echo_env 1000 True 0 ready_sys)) =
       pre @ iter_sent True 1000 126 126 m @
       PrintMark (fst (lb_outcome len (frames_agree (iter_frame m 126 126) rx LOOPBACK_TEST_FRAME_SIZE)))
       # free_events echo_env len @ [PrintNewline] \<and>
     fst (eth_run_loopback_test echo_env 1000 True 0 ready_sys) =
       (if PrintMark (CHR ''*'') \<in> set (drop 0 (events (snd (eth_run_loopback_test echo_env 1000 True 0 ready_sys))))
        then 0 else snd (lb_outcome len (frames_agree (iter_frame m 126 126) rx LOOPBACK_TEST_FRAME_SIZE)))"
  using sweep_result [of ready_sys echo_env 1000 0] by (simp add: ready_sys_def)
text \<open>C18: the counter invariant of the sweep: after all rows, \<open>success\<close> has grown by
  exactly the number of \<open>*\<close> printed during the sweep, it is not negative, and \<open>ret\<close>
  is 0 only if some pair succeeded.\<close>

theorem sweep_success_counts_stars:
  assumes "0 \<le> success t"
  shows "success (foldl (\<lambda>t i. sweep_row E sp i t) t [0..<MAX_TX_DELAY_LINE]) =
           success t + int (stars (drop (length (events t))
                                 (events (foldl (\<lambda>t i. sweep_row E sp i t) t [0..<MAX_TX_DELAY_LINE]))))
    \<and> lb_ok (foldl (\<lambda>t i. sweep_row E sp i t) t [0..<MAX_TX_DELAY_LINE])"
proof -
  let ?u = "foldl (\<lambda>t i. sweep_row E sp i t) t [0..<MAX_TX_DELAY_LINE]"
  obtain X where X: "events ?u = events t @ X"
    using lb_step_okD(2) [OF sweep_step_ok, where t = t] by blast
  have "int (stars (events ?u)) - success ?u = int (stars (events t)) - success t"
    by (rule lb_step_okD(1) [OF sweep_step_ok])
  with X have "success ?u = success t + int (stars X)" by simp
  moreover have "lb_ok ?u" by (rule lb_step_okD(3) [OF sweep_step_ok assms])
  ultimately show ?thesis using X by simp
qed

theorem sweep_success_counts_stars_witness:
  "success (foldl (\<lambda>t i. sweep_row echo_env 1000 i t) (lb_start echo_env 0 ready_sys) [0..<MAX_TX_DELAY_LINE]) =
     success (lb_start echo_env 0 ready_sys) + int (stars (drop (length (events (lb_start echo_env 0 ready_sys)))
       (events (foldl (\<lambda>t i. sweep_row echo_env 1000 i t) (lb_start echo_env 0 ready_sys) [0..<MAX_TX_DELAY_LINE]))))
   \<and> lb_ok (foldl (\<lambda>t i. sweep_row echo_env 1000 i t) (lb_start echo_env 0 ready_sys) [0..<MAX_TX_DELAY_LINE])"
  using sweep_success_counts_stars [of "lb_start echo_env 0 ready_sys" echo_env 1000] by (simp add: lb_start_fields)

end
