(* ===== verification/SweepTrace.thy ===== *)
theory SweepTrace
  imports LoopbackRun
begin

text \<open>
  The trace of the delay-line sweep (\<open>rktest eth delaytest\<close>, the \<open>delay_test\<close>
  branch of \<open>eth_run_loopback_test\<close> in \<open>src/test/rockchip/test-eth.c\<close>): which
  \<open>gmac_set_rgmii\<close> settings the sweep makes, in which order, and which frames it
  sends. The sent frame is \<open>net_tx_packet\<close> after the iteration's
  \<open>alter_lbtest_frame\<close>; the buffer is never rebuilt between iterations, so every
  frame carries the sentinels of all the iterations before it.
\<close>

unbundle bit_operations_syntax

section \<open>Vocabulary of the trace\<close>

text \<open>The delay-line settings and the frames of an event log, in order.\<close>

fun delay_settings :: "event list \<Rightarrow> (u32 \<times> u32) list" where
  "delay_settings [] = []"
| "delay_settings (SetRgmii tx rx # evs) = (tx, rx) # delay_settings evs"
| "delay_settings (_ # evs) = delay_settings evs"

definition row_pairs :: "nat \<Rightarrow> (u32 \<times> u32) list" where
  "row_pairs i = map (\<lambda>j. (of_nat i, of_nat j)) [0..<MAX_RX_DELAY_LINE]"

fun sent_frames :: "event list \<Rightarrow> buf list" where
  "sent_frames [] = []"
| "sent_frames (SendPacket b n # evs) = b # sent_frames evs"
| "sent_frames (_ # evs) = sent_frames evs"

definition tag_fold :: "buf \<Rightarrow> (nat \<times> nat) list \<Rightarrow> buf" where
  "tag_fold m ps = foldl (\<lambda>b (a, c). iter_frame b a c) m ps"

text \<open>The frame the sweep sends at \<open>(i, j)\<close>: the base frame with the sentinels of every
  iteration up to and including \<open>(i, j)\<close>, in the order of the two loops.\<close>

definition sweep_frame :: "buf \<Rightarrow> nat \<Rightarrow> nat \<Rightarrow> buf" where
  "sweep_frame m i j = tag_fold m (List.product [0..<i] [0..<MAX_RX_DELAY_LINE] @ map (Pair i) [0..<Suc j])"

section \<open>Delay-line settings\<close>

lemma delay_settings_append [simp]: "delay_settings (xs @ ys) = delay_settings xs @ delay_settings ys"
  by (induction xs rule: delay_settings.induct) simp_all

lemma delay_settings_iter [simp]:
  "delay_settings (iter_sent dt sp i j m) = (if dt then [(of_nat i, of_nat j)] else [])"
  "delay_settings (free_events E len) = []"
  by (simp_all add: iter_sent_def free_events_def)

lemma delay_settings_iteration:
  "delay_settings (events (lb_iteration E sp True i j t)) = delay_settings (events t) @ [(of_nat i, of_nat j)]"
proof -
  obtain len rx where r: "recv E (events t @ iter_sent True sp i j (txbuf t)) = (len, rx)"
    by (cases "recv E (events t @ iter_sent True sp i j (txbuf t))")
  show ?thesis by (simp add: lb_iteration_fields(3) [OF r])
qed

lemma delay_settings_row_fold:
  "delay_settings (events (foldl (\<lambda>t j. lb_iteration E sp True i j t) t js)) =
     delay_settings (events t) @ map (\<lambda>j. (of_nat i, of_nat j)) js"
  by (induction js arbitrary: t) (simp_all add: delay_settings_iteration)

lemma delay_settings_sweep_fold:
  "delay_settings (events (foldl (\<lambda>t i. sweep_row E sp i t) t is)) =
     delay_settings (events t) @ concat (map row_pairs is)"
  by (induction "is" arbitrary: t) (simp_all add: sweep_row_def delay_settings_row_fold row_pairs_def)

lemma sweep_delay_settings_eq:
  assumes "net_tx_ready s"
  shows "delay_settings (drop (length (events s)) (events (snd (eth_run_loopback_test E sp True r0 s)))) =
    map (\<lambda>(i, j). (of_nat i, of_nat j)) (List.product [0..<MAX_TX_DELAY_LINE] [0..<MAX_RX_DELAY_LINE])"
proof -
  define s3 where "s3 = foldl (\<lambda>t i. sweep_row E sp i t) (lb_start E r0 s) [0..<MAX_TX_DELAY_LINE]"
  obtain X where X: "events s3 = events (lb_start E r0 s) @ X"
    using lb_step_okD(2) [OF sweep_step_ok, where t = "lb_start E r0 s"] unfolding s3_def by blast
  have "delay_settings (events s3) = delay_settings (events (lb_start E r0 s)) @
          concat (map row_pairs [0..<MAX_TX_DELAY_LINE])"
    unfolding s3_def by (rule delay_settings_sweep_fold)
  with X show ?thesis
    by (simp add: run_sweep [OF assms] s3_def [symmetric] Let_def sys.defs lb_start_fields
        product_concat_map map_concat row_pairs_def [abs_def] comp_def)
qed

section \<open>Frames\<close>

lemma sent_frames_append [simp]: "sent_frames (xs @ ys) = sent_frames xs @ sent_frames ys"
  by (induction xs rule: sent_frames.induct) simp_all

lemma sent_frames_iter [simp]:
  "sent_frames (iter_sent dt sp i j m) = [iter_frame m i j]"
  "sent_frames (free_events E len) = []"
  by (simp_all add: iter_sent_def free_events_def)

lemma tag_fold_simps [simp]:
  "tag_fold m [] = m"
  "tag_fold m (xs @ ys) = tag_fold (tag_fold m xs) ys"
  "tag_fold m ((a, c) # ps) = tag_fold (iter_frame m a c) ps"
  by (simp_all add: tag_fold_def)

lemma row_fold_frames:
  "txbuf (foldl (\<lambda>t j. lb_iteration E sp True i j t) t js) = tag_fold (txbuf t) (map (Pair i) js) \<and>
   sent_frames (events (foldl (\<lambda>t j. lb_iteration E sp True i j t) t js)) =
     sent_frames (events t) @ map (\<lambda>k. tag_fold (txbuf t) (take (Suc k) (map (Pair i) js))) [0..<length js]"
proof (induction js arbitrary: t)
  case (Cons j js)
  obtain len rx where r: "recv E (events t @ iter_sent True sp i j (txbuf t)) = (len, rx)"
    by (cases "recv E (events t @ iter_sent True sp i j (txbuf t))")
  show ?case
    using Cons.IH [of "lb_iteration E sp True i j t"]
    by (simp add: lb_iteration_fields [OF r] map_upt_Suc del: upt_Suc)
qed simp

lemma take_row: "k < n \<Longrightarrow> take (Suc k) (map (Pair i) [0..<n]) = map (Pair i) [0..<Suc k]"
  by (simp add: take_map min_def)

lemma sweep_rows_frames:
  "n \<le> MAX_TX_DELAY_LINE \<Longrightarrow>
   txbuf (foldl (\<lambda>t i. sweep_row E sp i t) t [0..<n]) =
     tag_fold (txbuf t) (List.product [0..<n] [0..<MAX_RX_DELAY_LINE]) \<and>
   sent_frames (events (foldl (\<lambda>t i. sweep_row E sp i t) t [0..<n])) =
     sent_frames (events t) @ map (\<lambda>(i, j). sweep_frame (txbuf t) i j)
                                  (List.product [0..<n] [0..<MAX_RX_DELAY_LINE])"
proof (induction n)
  case (Suc n)
  let ?u = "foldl (\<lambda>t i. sweep_row E sp i t) t [0..<n]"
  have row: "txbuf (sweep_row E sp n ?u) = tag_fold (txbuf ?u) (map (Pair n) [0..<MAX_RX_DELAY_LINE])"
    "sent_frames (events (sweep_row E sp n ?u)) = sent_frames (events ?u) @
       map (\<lambda>k. tag_fold (txbuf ?u) (take (Suc k) (map (Pair n) [0..<MAX_RX_DELAY_LINE]))) [0..<MAX_RX_DELAY_LINE]"
    using row_fold_frames [of E sp n "emit (PrintRow n) ?u" "[0..<MAX_RX_DELAY_LINE]"]
    by (simp_all add: sweep_row_def)
  have "map (\<lambda>k. tag_fold (txbuf ?u) (take (Suc k) (map (Pair n) [0..<MAX_RX_DELAY_LINE]))) [0..<MAX_RX_DELAY_LINE]
        = map (sweep_frame (txbuf t) n) [0..<MAX_RX_DELAY_LINE]"
    using Suc by (simp add: take_row sweep_frame_def)
  with Suc row show ?case
    by (simp add: product_concat_map comp_def)
qed simp

lemma sweep_sent_frames_eq:
  assumes "net_tx_ready s"
  shows "sent_frames (drop (length (events s)) (events (snd (eth_run_loopback_test E sp True r0 s)))) =
    map (\<lambda>(i, j). sweep_frame (lb_base_frame E (txbuf s)) i j)
        (List.product [0..<MAX_TX_DELAY_LINE] [0..<MAX_RX_DELAY_LINE])"
proof -
  define s3 where "s3 = foldl (\<lambda>t i. sweep_row E sp i t) (lb_start E r0 s) [0..<MAX_TX_DELAY_LINE]"
  obtain X where X: "events s3 = events (lb_start E r0 s) @ X"
    using lb_step_okD(2) [OF sweep_step_ok, where t = "lb_start E r0 s"] unfolding s3_def by blast
  have "sent_frames (events s3) = sent_frames (events (lb_start E r0 s)) @
          map (\<lambda>(i, j). sweep_frame (txbuf (lb_start E r0 s)) i j)
              (List.product [0..<MAX_TX_DELAY_LINE] [0..<MAX_RX_DELAY_LINE])"
    unfolding s3_def using sweep_rows_frames [of MAX_TX_DELAY_LINE] by simp
  with X show ?thesis
    by (simp add: run_sweep [OF assms] s3_def [symmetric] Let_def sys.defs lb_start_fields)
qed

lemma unat_tag_offset: "a < 127 \<Longrightarrow> unat (750 + word_of_nat a :: u32) = 750 + a"
  by (simp add: unat_word_ariths unat_of_nat)

lemma iter_frame_norm:
  "a < 127 \<Longrightarrow> c < 127 \<Longrightarrow>
   alter_lbtest_frame b 14 1500 (word_of_nat a) (word_of_nat c) = b(764 + a := 0xBE, 764 + c := 0xAF)"
  by (simp add: alter_lbtest_frame_half unat_tag_offset)

lemma iter_frame_small:
  "a < 127 \<Longrightarrow> c < 127 \<Longrightarrow> iter_frame b a c = b(764 + a := 0xBE, 764 + c := 0xAF)"
  by (simp add: iter_frame_norm)

lemma tag_fold_untouched:
  "(\<forall>(a, c) \<in> set ps. a < 127 \<and> c < 127 \<and> a \<noteq> x \<and> c \<noteq> x) \<Longrightarrow> tag_fold b ps (764 + x) = b (764 + x)"
  by (induction ps arbitrary: b) (auto simp: iter_frame_norm)

lemma sweep_frame_step:
  "i < 127 \<Longrightarrow> Suc j < 127 \<Longrightarrow> sweep_frame m i (Suc j) = iter_frame (sweep_frame m i j) i (Suc j)"
  by (simp add: sweep_frame_def)

lemma sweep_frame_BE:
  assumes "i < 127" and "j < 127" and "j \<noteq> i"
  shows "sweep_frame m i j (764 + i) = 0xBE"
proof -
  have "sweep_frame m i j =
        iter_frame (tag_fold m (List.product [0..<i] [0..<MAX_RX_DELAY_LINE] @ map (Pair i) [0..<j])) i j"
    by (simp add: sweep_frame_def)
  with assms show ?thesis by (simp add: iter_frame_norm)
qed

lemma sweep_frame_AF:
  assumes "i = Suc i'" and "i < 127" and "Suc j < 127" and "Suc j \<noteq> i" and "Suc j \<noteq> i'"
  shows "sweep_frame m i j (764 + Suc j) = 0xAF"
proof -
  let ?A = "List.product [0..<i'] [0..<MAX_RX_DELAY_LINE] @ map (Pair i') [0..<Suc j]"
  let ?B = "map (Pair i') [Suc (Suc j)..<127] @ map (Pair i) [0..<Suc j]"
  have split: "[0..<127] = [0..<Suc (Suc j)] @ [Suc (Suc j)..<127]"
    using upt_add_eq_append [of 0 "Suc (Suc j)" "127 - Suc (Suc j)"] assms(3) by simp
  have lst: "List.product [0..<i] [0..<MAX_RX_DELAY_LINE] @ map (Pair i) [0..<Suc j] = ?A @ (i', Suc j) # ?B"
    by (simp add: assms(1) delay_line_bounds split product_concat_map)
  have eq: "sweep_frame m i j = tag_fold (iter_frame (tag_fold m ?A) i' (Suc j)) ?B"
    by (simp only: sweep_frame_def lst tag_fold_simps)
  have un: "tag_fold (iter_frame (tag_fold m ?A) i' (Suc j)) ?B (764 + Suc j) =
            iter_frame (tag_fold m ?A) i' (Suc j) (764 + Suc j)"
    using assms by (intro tag_fold_untouched) auto
  have i': "i' < 127" using assms(1,2) by simp
  from eq un have "sweep_frame m i j (764 + Suc j) = iter_frame (tag_fold m ?A) i' (Suc j) (764 + Suc j)"
    by (simp only:)
  also have "\<dots> = 0xAF"
    by (simp only: iter_frame_small [OF i' assms(3)] fun_upd_same)
  finally show ?thesis .
qed

lemma sweep_frame_repeats:
  assumes "0 < i" and "i < 127" and "Suc j < 127" and "j \<noteq> i" and "Suc j \<noteq> i" and "Suc (Suc j) \<noteq> i"
  shows "sweep_frame m i (Suc j) = sweep_frame m i j"
proof -
  obtain i' where i: "i = Suc i'" using assms(1) by (cases i) auto
  have be: "sweep_frame m i j (764 + i) = 0xBE"
    by (rule sweep_frame_BE) (use assms in auto)
  have af: "sweep_frame m i j (764 + Suc j) = 0xAF"
    by (rule sweep_frame_AF [OF i]) (use assms i in auto)
  have "sweep_frame m i (Suc j) = (sweep_frame m i j)(764 + i := 0xBE, 764 + Suc j := 0xAF)"
    by (simp only: sweep_frame_step [OF assms(2,3)] iter_frame_small [OF assms(2,3)])
  also have "\<dots> = sweep_frame m i j"
    by (simp only: fun_upd_idem be af)
  finally show ?thesis .
qed

section \<open>A working loopback, the number of iterations, the shape of the frames\<close>

lemma echo_recv_iter:
  "echo_recv (evs @ iter_sent dt sp i j m) = (int LOOPBACK_TEST_FRAME_SIZE, iter_frame m i j)"
  by (simp add: echo_recv_def last_sent_append iter_sent_def)

lemma echo_iteration:
  assumes "recv E = echo_recv"
  shows "success (lb_iteration E sp dt i j t) = success t + 1"
    and "ret (lb_iteration E sp dt i j t) = 0"
  using lb_iteration_fields(1,2) [of E t dt sp i j, OF assms [THEN fun_cong, THEN trans, OF echo_recv_iter]]
  by (simp_all add: lb_outcome_def frames_agree_iff)

lemma echo_row_fold:
  "recv E = echo_recv \<Longrightarrow>
   success (foldl (\<lambda>t j. lb_iteration E sp True i j t) t js) = success t + int (length js)"
  by (induction js arbitrary: t) (simp_all add: echo_iteration)

lemma echo_sweep_fold:
  "recv E = echo_recv \<Longrightarrow>
   success (foldl (\<lambda>t i. sweep_row E sp i t) t is) = success t + int (length is) * int MAX_RX_DELAY_LINE"
  by (induction "is" arbitrary: t) (simp_all add: sweep_row_def echo_row_fold algebra_simps)

lemma run_single_shot_state:
  "net_tx_ready s \<Longrightarrow>
   snd (eth_run_loopback_test E sp False r0 s) =
     sys.truncate (emit PrintNewline (lb_iteration E sp False 0 0 (lb_start E r0 s)))"
  by (simp add: eth_run_loopback_test_def tx_loop_single lb_start_def Let_def)

lemma run_single_shot_events:
  assumes "net_tx_ready s"
    and "recv E (events s @ [Udelay 50000] @ iter_sent False sp 0 0 (lb_base_frame E (txbuf s))) = (len, rx)"
  shows "events (snd (eth_run_loopback_test E sp False r0 s)) =
    events s @ [Udelay 50000] @ iter_sent False sp 0 0 (lb_base_frame E (txbuf s)) @
    PrintMark (fst (lb_outcome len (frames_agree (first_frame E (txbuf s)) rx LOOPBACK_TEST_FRAME_SIZE)))
    # free_events E len @ [PrintNewline]"
proof -
  have r: "recv E (events (lb_start E r0 s) @ iter_sent False sp 0 0 (txbuf (lb_start E r0 s))) = (len, rx)"
    using assms(2) by (simp add: lb_start_fields)
  show ?thesis
    using lb_iteration_fields(3) [OF r]
    by (simp add: run_single_shot_state [OF assms(1)] sys.defs lb_start_fields first_frame_def)
qed

lemma tag_fold_bytes:
  "(\<forall>(a, c) \<in> set ps. a < 127 \<and> c < 127) \<Longrightarrow>
   tag_fold b ps x = b x \<or> (764 \<le> x \<and> x < 891 \<and> (tag_fold b ps x = 0xBE \<or> tag_fold b ps x = 0xAF))"
proof (induction ps arbitrary: b)
  case (Cons p ps)
  obtain a c where p: "p = (a, c)" by (cases p)
  with Cons.prems have ac: "a < 127" "c < 127" by auto
  define b' where "b' = b(764 + a := 0xBE, 764 + c := 0xAF)"
  have eq: "tag_fold b (p # ps) x = tag_fold b' ps x"
    by (simp add: p b'_def iter_frame_norm ac)
  have ih: "tag_fold b' ps x = b' x \<or> (764 \<le> x \<and> x < 891 \<and> (tag_fold b' ps x = 0xBE \<or> tag_fold b' ps x = 0xAF))"
    using Cons.IH Cons.prems by simp
  have "b' x = b x \<or> (764 \<le> x \<and> x < 891 \<and> (b' x = 0xBE \<or> b' x = 0xAF))"
    using ac by (auto simp: b'_def)
  with ih show ?case unfolding eq by auto
qed simp

lemma sweep_frame_bytes:
  "i < 127 \<Longrightarrow> j < 127 \<Longrightarrow>
   sweep_frame m i j x = m x \<or> (764 \<le> x \<and> x < 891 \<and> (sweep_frame m i j x = 0xBE \<or> sweep_frame m i j x = 0xAF))"
  unfolding sweep_frame_def by (rule tag_fold_bytes) (auto simp: delay_line_bounds)

section \<open>Properties of the sweep\<close>

text \<open>C6: in sweep mode \<open>eth_run_loopback_test\<close> sets the delay lines to every pair
  \<open>(tx, rx)\<close> with \<open>tx < MAX_TX_DELAY_LINE\<close> and \<open>rx < MAX_RX_DELAY_LINE\<close>, once each, in
  row-major order (the outer loop over \<open>tx\<close>).\<close>

theorem sweep_delay_settings:
  assumes "net_tx_ready s"
  shows "delay_settings (drop (length (events s)) (events (snd (eth_run_loopback_test E sp True r0 s)))) =
    map (\<lambda>(i, j). (of_nat i, of_nat j)) (List.product [0..<MAX_TX_DELAY_LINE] [0..<MAX_RX_DELAY_LINE])"
  using assms by (rule sweep_delay_settings_eq)

theorem sweep_delay_settings_witness:
  "delay_settings (drop 0 (events (snd (eth_run_loopback_test echo_env 1000 True 0 ready_sys)))) =
    map (\<lambda>(i, j). (of_nat i, of_nat j)) (List.product [0..<MAX_TX_DELAY_LINE] [0..<MAX_RX_DELAY_LINE])"
  using sweep_delay_settings [of ready_sys echo_env 1000 0] by (simp add: ready_sys_def)

text \<open>C7: the sweep makes 127 x 127 = 16129 settings, all with both delays below
  \<open>0x7F\<close>: the value \<open>0x7F\<close> itself is never tried, since both loops run \<open>i < 0x7F\<close>.\<close>

theorem sweep_skips_7F:
  assumes "net_tx_ready s"
  shows "length (delay_settings (drop (length (events s)) (events (snd (eth_run_loopback_test E sp True r0 s))))) = 16129
    \<and> (\<forall>(tx, rx) \<in> set (delay_settings (drop (length (events s)) (events (snd (eth_run_loopback_test E sp True r0 s))))).
         tx < 0x7F \<and> rx < 0x7F)"
  using assms by (auto simp: sweep_delay_settings_eq delay_line_bounds word_less_nat_alt unat_of_nat)

theorem sweep_skips_7F_witness:
  "length (delay_settings (drop 0 (events (snd (eth_run_loopback_test echo_env 1000 True 0 ready_sys))))) = 16129"
  using sweep_skips_7F [of ready_sys echo_env 1000 0] by (simp add: ready_sys_def)

text \<open>C37: in sweep mode the frames sent are, in order, the base frame of
  \<open>create_lbtest_frame\<close> with the sentinels of every iteration so far: frame
  \<open>(i, j)\<close> is \<open>sweep_frame\<close> of the base frame at \<open>(i, j)\<close>.\<close>

theorem sweep_sent_frames:
  assumes "net_tx_ready s"
  shows "sent_frames (drop (length (events s)) (events (snd (eth_run_loopback_test E sp True r0 s)))) =
    map (\<lambda>(i, j). sweep_frame (lb_base_frame E (txbuf s)) i j)
        (List.product [0..<MAX_TX_DELAY_LINE] [0..<MAX_RX_DELAY_LINE])"
  using assms by (rule sweep_sent_frames_eq)

theorem sweep_sent_frames_witness:
  "sent_frames (drop 0 (events (snd (eth_run_loopback_test echo_env 1000 True 0 ready_sys)))) =
    map (\<lambda>(i, j). sweep_frame (lb_base_frame echo_env (txbuf ready_sys)) i j)
        (List.product [0..<MAX_TX_DELAY_LINE] [0..<MAX_RX_DELAY_LINE])"
  using sweep_sent_frames [of ready_sys echo_env 1000 0] by (simp add: ready_sys_def)

text \<open>C8: because the sentinels accumulate, two consecutive frames of a sweep row are
  often identical: frame \<open>(i, j+1)\<close> equals frame \<open>(i, j)\<close> when \<open>0 < i\<close> and none of
  \<open>j, j+1, j+2\<close> is \<open>i\<close>. A driver that hands back the previous frame instead of the
  current one still scores \<open>*\<close>, so the tags do not identify the delay pair.\<close>

theorem sweep_repeats_frames:
  assumes "net_tx_ready s" and "0 < i" and "i < 127" and "Suc j < 127"
    and "j \<noteq> i" and "Suc j \<noteq> i" and "Suc (Suc j) \<noteq> i"
  shows "sent_frames (drop (length (events s)) (events (snd (eth_run_loopback_test E sp True r0 s)))) ! (127 * i + Suc j) =
         sent_frames (drop (length (events s)) (events (snd (eth_run_loopback_test E sp True r0 s)))) ! (127 * i + j)"
proof -
  have n1: "List.product [0..<127] [0..<127] ! (127 * i + Suc j) = (i, Suc j)"
    and n0: "List.product [0..<127] [0..<127] ! (127 * i + j) = (i, j)"
    using assms by (simp_all add: product_nth)
  show ?thesis
    using assms n0 n1 by (simp add: sweep_sent_frames_eq delay_line_bounds sweep_frame_repeats)
qed

theorem sweep_repeats_frames_witness:
  "sent_frames (drop 0 (events (snd (eth_run_loopback_test echo_env 1000 True 0 ready_sys)))) ! (127 * 5 + 11) =
   sent_frames (drop 0 (events (snd (eth_run_loopback_test echo_env 1000 True 0 ready_sys)))) ! (127 * 5 + 10)"
  using sweep_repeats_frames [of ready_sys 5 10 echo_env 1000 0] by (simp add: ready_sys_def)

text \<open>C10: with a device that hands back every frame it is sent, the sweep succeeds:
  every one of the \<open>MAX_TX_DELAY_LINE * MAX_RX_DELAY_LINE\<close> pairs prints \<open>*\<close> and the
  test returns 0.\<close>

theorem sweep_echo_all_pass:
  assumes "net_tx_ready s" and "recv E = echo_recv"
  shows "fst (eth_run_loopback_test E sp True r0 s) = 0 \<and>
    stars (drop (length (events s)) (events (snd (eth_run_loopback_test E sp True r0 s)))) =
      MAX_TX_DELAY_LINE * MAX_RX_DELAY_LINE"
proof -
  define s3 where "s3 = foldl (\<lambda>t i. sweep_row E sp i t) (lb_start E r0 s) [0..<MAX_TX_DELAY_LINE]"
  have succ: "success s3 = int (MAX_TX_DELAY_LINE * MAX_RX_DELAY_LINE)"
    unfolding s3_def using echo_sweep_fold [OF assms(2)] by (simp add: lb_start_fields)
  have inv: "int (stars (events s3)) - success s3 =
              int (stars (events (lb_start E r0 s))) - success (lb_start E r0 s)"
    unfolding s3_def by (rule lb_step_okD(1) [OF sweep_step_ok])
  obtain X where X: "events s3 = events (lb_start E r0 s) @ X"
    using lb_step_okD(2) [OF sweep_step_ok, where t = "lb_start E r0 s"] unfolding s3_def by blast
  from inv X succ lb_start_fields(3) have "stars X = MAX_TX_DELAY_LINE * MAX_RX_DELAY_LINE"
    by (simp flip: of_nat_mult)
  moreover have "0 < success s3" using succ by (simp add: delay_line_bounds)
  ultimately show ?thesis using X
    by (simp add: run_sweep [OF assms(1)] s3_def [symmetric] Let_def sys.defs lb_start_fields)
qed

theorem sweep_echo_all_pass_witness:
  "fst (eth_run_loopback_test echo_env 1000 True 0 ready_sys) = 0 \<and>
    stars (drop 0 (events (snd (eth_run_loopback_test echo_env 1000 True 0 ready_sys)))) =
      MAX_TX_DELAY_LINE * MAX_RX_DELAY_LINE"
  using sweep_echo_all_pass [of ready_sys echo_env 1000 0] by (simp add: ready_sys_def echo_env_def)

text \<open>C14: the runner ends after a fixed number of iterations: one frame in
  single-shot mode, where the loop returns from its first iteration, and exactly
  \<open>MAX_TX_DELAY_LINE * MAX_RX_DELAY_LINE\<close> frames in sweep mode.\<close>

theorem run_iteration_count:
  assumes "net_tx_ready s"
  shows "length (sent_frames (drop (length (events s)) (events (snd (eth_run_loopback_test E sp dt r0 s))))) =
    (if dt then MAX_TX_DELAY_LINE * MAX_RX_DELAY_LINE else 1)"
proof (cases dt)
  case True
  then show ?thesis using sweep_sent_frames_eq [OF assms, of E sp r0] by simp
next
  case False
  obtain len rx where r: "recv E (events s @ [Udelay 50000] @ iter_sent False sp 0 0 (lb_base_frame E (txbuf s))) = (len, rx)"
    by (cases "recv E (events s @ [Udelay 50000] @ iter_sent False sp 0 0 (lb_base_frame E (txbuf s)))")
  show ?thesis
    using False run_single_shot_events [OF assms r] by simp
qed

theorem run_iteration_count_witness:
  "length (sent_frames (drop 0 (events (snd (eth_run_loopback_test echo_env 100 False 0 ready_sys))))) = 1"
  using run_iteration_count [of ready_sys echo_env 100 False 0] by (simp add: ready_sys_def)

text \<open>C15: every frame the sweep sends is the base frame of \<open>create_lbtest_frame\<close>
  except for sentinel bytes \<open>0xBE\<close> or \<open>0xAF\<close> in the tag window \<open>[764, 891)\<close> of
  the payload: tagging never writes outside the frame, nor into the header.\<close>

theorem sweep_frames_well_formed:
  assumes "net_tx_ready s"
  shows "\<forall>f \<in> set (sent_frames (drop (length (events s)) (events (snd (eth_run_loopback_test E sp True r0 s))))).
     \<forall>x. f x = lb_base_frame E (txbuf s) x \<or> (764 \<le> x \<and> x < 891 \<and> (f x = 0xBE \<or> f x = 0xAF))"
proof (intro ballI allI)
  fix f x
  assume "f \<in> set (sent_frames (drop (length (events s)) (events (snd (eth_run_loopback_test E sp True r0 s)))))"
  then obtain i j where ij: "i < 127" "j < 127" and f: "f = sweep_frame (lb_base_frame E (txbuf s)) i j"
    by (auto simp: sweep_sent_frames_eq [OF assms] delay_line_bounds)
  show "f x = lb_base_frame E (txbuf s) x \<or> (764 \<le> x \<and> x < 891 \<and> (f x = 0xBE \<or> f x = 0xAF))"
    unfolding f by (rule sweep_frame_bytes [OF ij])
qed

theorem sweep_frames_well_formed_witness:
  "(sent_frames (drop 0 (events (snd (eth_run_loopback_test echo_env 1000 True 0 ready_sys)))) ! 5) 100 =
     lb_base_frame echo_env (txbuf ready_sys) 100"
proof -
  have R: "net_tx_ready ready_sys" by (simp add: ready_sys_def)
  let ?fs = "sent_frames (drop (length (events ready_sys))
               (events (snd (eth_run_loopback_test echo_env 1000 True 0 ready_sys))))"
  have "length ?fs = MAX_TX_DELAY_LINE * MAX_RX_DELAY_LINE"
    using sweep_sent_frames_eq [OF R, of echo_env 1000 0] by simp
  then have mem: "?fs ! 5 \<in> set ?fs" by (simp add: delay_line_bounds)
  have "(?fs ! 5) 100 = lb_base_frame echo_env (txbuf ready_sys) 100 \<or>
        (764 \<le> (100::nat) \<and> (100::nat) < 891 \<and> ((?fs ! 5) 100 = 0xBE \<or> (?fs ! 5) 100 = 0xAF))"
    using sweep_frames_well_formed [OF R, of echo_env 1000 0] mem by blast
  then show ?thesis by (simp add: ready_sys_def)
qed

text \<open>C11: the free after a receive: a single-shot run calls \<open>free_pkt\<close> exactly once,
  with the returned length, when that length is not negative and the driver has the
  operation, and never otherwise. So an empty receive (length 0, nothing arrived)
  is also freed, with the \<open>rx_packet\<close> pointer the driver did not set.\<close>

theorem single_shot_free_pkt:
  assumes "net_tx_ready s"
    and "recv E (events s @ [Udelay 50000] @ iter_sent False sp 0 0 (lb_base_frame E (txbuf s))) = (len, rx)"
  shows "filter (\<lambda>e. case e of FreePkt l \<Rightarrow> True | _ \<Rightarrow> False)
           (drop (length (events s)) (events (snd (eth_run_loopback_test E sp False r0 s)))) =
         (if 0 \<le> len \<and> has_free_pkt E then [FreePkt len] else [])"
  by (simp add: run_single_shot_events [OF assms] iter_sent_def free_events_def)

theorem single_shot_free_pkt_witness:
  "filter (\<lambda>e. case e of FreePkt l \<Rightarrow> True | _ \<Rightarrow> False)
     (drop 0 (events (snd (eth_run_loopback_test (echo_env\<lparr>recv := (\<lambda>_. (0, \<lambda>_. 0))\<rparr>) 1000 False 0 ready_sys)))) =
   [FreePkt 0]"
  using single_shot_free_pkt [of ready_sys "echo_env\<lparr>recv := (\<lambda>_. (0, \<lambda>_. 0))\<rparr>" 1000 0 "\<lambda>_. 0" 0]
  by (simp add: ready_sys_def echo_env_def)

end
