(* ===== verification/Command.thy ===== *)
theory Command
  imports LoopbackRun
begin

text \<open>
  The command layer of \<open>src/test/rockchip/test-eth.c\<close>: \<open>ethernet_init\<close>,
  \<open>eth_loopback_test\<close>, \<open>do_eth_help\<close> and the dispatcher \<open>board_eth_test\<close> behind
  \<open>rktest eth ...\<close>, with the libc helpers they call (\<open>strncmp\<close>, \<open>strtoul\<close> with
  base 0, \<open>strncat\<close>) modelled from U-Boot's \<open>lib/string.c\<close> and \<open>lib/strto.c\<close>.
  C strings are \<open>string\<close>s without their terminating NUL; \<open>argv\<close> is a list of them.
  The stack buffer \<open>cmd_eth[512]\<close> is its contents; a write past its end, which C
  leaves undefined, is the error value \<open>CmdEthOverflow\<close>.
\<close>

unbundle bit_operations_syntax

section \<open>libc string helpers\<close>

text \<open>\<open>strncmp(cs, ct, count)\<close>: compares up to \<open>count\<close> characters, each string
  including its NUL, and stops at the first difference or at a common NUL. The
  result is the difference of the two bytes as a \<open>signed char\<close>.\<close>

fun strncmp_z :: "char list \<Rightarrow> char list \<Rightarrow> nat \<Rightarrow> int" where
  "strncmp_z cs ct 0 = 0"
| "strncmp_z (a # cs) (b # ct) (Suc n) =
     (let r = (of_char a - of_char b :: 8 word)
      in if r \<noteq> 0 \<or> a = CHR 0x00 then sint r else strncmp_z cs ct n)"
| "strncmp_z _ _ _ = 0"

definition strncmp :: "string \<Rightarrow> string \<Rightarrow> nat \<Rightarrow> int" where
  "strncmp cs ct count = strncmp_z (cs @ [CHR 0x00]) (ct @ [CHR 0x00]) count"

text \<open>\<open>strtoul(cp, NULL, 0)\<close> is \<open>simple_strtoul\<close>: base 16 after \<open>0x\<close> or \<open>0X\<close>
  followed by a hex digit, base 8 after a leading \<open>0\<close>, base 10 otherwise; then digits
  are accumulated in an \<open>unsigned long\<close> (64 bits on the RK3328) while they are hex
  digits whose value is below the base.\<close>

definition hex_val :: "char \<Rightarrow> nat option" where
  "hex_val c =
     (let n = of_char c :: nat
      in if 48 \<le> n \<and> n \<le> 57 then Some (n - 48)
         else if 97 \<le> n \<and> n \<le> 102 then Some (n - 87)
         else if 65 \<le> n \<and> n \<le> 70 then Some (n - 55) else None)"

definition strtoul_radix :: "string \<Rightarrow> nat \<times> string" where
  "strtoul_radix s =
     (case s of
        c0 # c1 # rest \<Rightarrow>
          if c0 = CHR ''0'' then
            (if (c1 = CHR ''x'' \<or> c1 = CHR ''X'') \<and> (case rest of c2 # _ \<Rightarrow> hex_val c2 \<noteq> None | [] \<Rightarrow> False)
             then (16, rest) else (8, s))
          else (10, s)
      | _ \<Rightarrow> (if s = ''0'' then (8, s) else (10, s)))"

fun strtoul_digits :: "nat \<Rightarrow> ulong \<Rightarrow> string \<Rightarrow> ulong" where
  "strtoul_digits base acc [] = acc"
| "strtoul_digits base acc (c # cs) =
     (case hex_val c of
        Some v \<Rightarrow> if v < base then strtoul_digits base (acc * of_nat base + of_nat v) cs else acc
      | None \<Rightarrow> acc)"

definition simple_strtoul :: "string \<Rightarrow> ulong" where
  "simple_strtoul cp = (case strtoul_radix cp of (base, ds) \<Rightarrow> strtoul_digits base 0 ds)"

text \<open>\<open>strncat(dest, src, count)\<close> appends at most \<open>count\<close> characters of \<open>src\<close> and a
  NUL; it does not know the size of \<open>dest\<close>.\<close>

definition strncat :: "string \<Rightarrow> string \<Rightarrow> nat \<Rightarrow> string" where
  "strncat dest src count = dest @ take count src"

section \<open>The command functions of test-eth.c\<close>

definition ethernet_init :: "env \<Rightarrow> 'a sys_scheme \<Rightarrow> int \<times> 'a sys_scheme" where
  "ethernet_init E s =
     (case eth_init E (eth_set_current (eth_halt (net_init s))) of
        (r, s1) \<Rightarrow> if r < 0 then (r, eth_halt s1) else (r, s1))"

definition eth_loopback_test :: "env \<Rightarrow> int \<Rightarrow> bool \<Rightarrow> int \<Rightarrow> sys \<Rightarrow> int \<times> sys" where
  "eth_loopback_test E speed delay_test r0 s =
     (if eth_dev E \<noteq> Some True then (- EINVAL, s)
      else
        (case ethernet_init E (eth_setup_loopback_test speed s) of
           (r, s1) \<Rightarrow>
             if r \<noteq> 0 then (r, emit (PrintErr ''eth_loopback_test, ethernet_init error'' r) s1)
             else eth_run_loopback_test E speed delay_test r0 s1))"

definition eth_help_lines :: "string list" where
  "eth_help_lines =
     [''Usage:'',
      ''rktest eth loopback speed - Test the phy loopback, speed is 1000/100/10, need to unplug the RJ45 cable'',
      ''rktest eth delaytest - Get the loopback-passed tx_delay/rx_delay array, need to unplug the RJ45 cable'',
      ''rktest eth delayline tx_delay rx_delay - Delay value is 0x00~0x7f'',
      ''rktest eth dhcp address IP:file - Boot image via network using DHCP/TFTP protocol, example: rktest eth dhcp 0x62000000 192.168.1.100:Image'']"

definition do_eth_help :: "'a sys_scheme \<Rightarrow> 'a sys_scheme" where
  "do_eth_help s = foldl (\<lambda>t l. emit (PrintMsg l) t) s eth_help_lines"

definition SIZEOF_CMD_ETH :: nat where "SIZEOF_CMD_ETH = 512"

datatype board_err = CmdEthOverflow

text \<open>The reassembly loop \<open>for (i = 2; i < argc; i++)\<close> of the fallback path.\<close>

function cmd_loop :: "string list \<Rightarrow> nat \<Rightarrow> string \<Rightarrow> string" where
  "cmd_loop argv i cmd =
     (if i < length argv then
        (let c1 = strncat cmd (argv ! i) SIZEOF_CMD_ETH;
             c2 = (if i < length argv - 1 then strncat c1 '' '' 2 else c1)
         in cmd_loop argv (Suc i) c2)
      else cmd)"
  by pat_completeness auto
termination
  by (relation "measure (\<lambda>(argv, i, cmd). length argv - i)") auto

declare cmd_loop.simps [simp del]

definition dhcp_fallback :: "env \<Rightarrow> string list \<Rightarrow> sys \<Rightarrow> board_err + int \<times> sys" where
  "dhcp_fallback E argv s =
     (let cmd_eth = cmd_loop argv 2 []
      in if SIZEOF_CMD_ETH \<le> length cmd_eth then Inl CmdEthOverflow
         else
           (let r = cli_ret E cmd_eth; s1 = emit (RunCommand cmd_eth) s
            in if r < 0 then Inr (r, emit (PrintErr ''DHCP test error'' r) s1)
               else Inr (0, s1)))"

definition board_eth_test :: "env \<Rightarrow> string list \<Rightarrow> int \<Rightarrow> sys \<Rightarrow> board_err + int \<times> sys" where
  "board_eth_test E argv r0 s =
     (if eth_dev E \<noteq> Some True then Inr (- EINVAL, s)
      else
        (let argc = length argv
         in if argc = 3 \<and> strncmp (argv ! 2) ''delaytest'' 10 = 0 then
              Inr (eth_loopback_test E LOOPBACK_SPEED_1000 True r0 s)
            else if argc = 3 \<and> strncmp (argv ! 2) ''help'' 5 = 0 then
              Inr (0, do_eth_help s)
            else if argc = 4 \<and> strncmp (argv ! 2) ''loopback'' 9 = 0 then
              Inr (eth_loopback_test E (sint (ucast (simple_strtoul (argv ! 3)) :: u32)) False r0 s)
            else if argc = 5 \<and> strncmp (argv ! 2) ''delayline'' 10 = 0 then
              Inr (0, gmac_set_rgmii (ucast (simple_strtoul (argv ! 3)))
                                     (ucast (simple_strtoul (argv ! 4))) s)
            else dhcp_fallback E argv s))"

section \<open>The command line as the help text describes it\<close>

text \<open>A C string holds no NUL; \<open>argv\<close> of the shell is a list of C strings.\<close>

definition c_string :: "string \<Rightarrow> bool" where
  "c_string s \<longleftrightarrow> CHR 0x00 \<notin> set s"

text \<open>The sub-commands of \<open>rktest eth\<close> by argument count and exact word, and what
  the dispatcher should do with each: the reference the \<open>strncmp\<close> chain refines.\<close>

datatype eth_cmd = EthDelaytest | EthHelp | EthLoopback string | EthDelayline string string | EthOther

definition parse_eth_cmd :: "string list \<Rightarrow> eth_cmd" where
  "parse_eth_cmd argv =
     (if length argv = 3 \<and> argv ! 2 = ''delaytest'' then EthDelaytest
      else if length argv = 3 \<and> argv ! 2 = ''help'' then EthHelp
      else if length argv = 4 \<and> argv ! 2 = ''loopback'' then EthLoopback (argv ! 3)
      else if length argv = 5 \<and> argv ! 2 = ''delayline'' then EthDelayline (argv ! 3) (argv ! 4)
      else EthOther)"

definition eth_cmd_spec :: "env \<Rightarrow> string list \<Rightarrow> int \<Rightarrow> sys \<Rightarrow> board_err + int \<times> sys" where
  "eth_cmd_spec E argv r0 s =
     (if eth_dev E \<noteq> Some True then Inr (- EINVAL, s)
      else
        (case parse_eth_cmd argv of
           EthDelaytest \<Rightarrow> Inr (eth_loopback_test E LOOPBACK_SPEED_1000 True r0 s)
         | EthHelp \<Rightarrow> Inr (0, do_eth_help s)
         | EthLoopback sp \<Rightarrow> Inr (eth_loopback_test E (sint (ucast (simple_strtoul sp) :: u32)) False r0 s)
         | EthDelayline tx rx \<Rightarrow>
             Inr (0, gmac_set_rgmii (ucast (simple_strtoul tx)) (ucast (simple_strtoul rx)) s)
         | EthOther \<Rightarrow> dhcp_fallback E argv s))"

text \<open>Words joined with single spaces, as the shell would show the command.\<close>

fun join_words :: "string list \<Rightarrow> string" where
  "join_words [] = []"
| "join_words [w] = w"
| "join_words (w # v # ws) = w @ '' '' @ join_words (v # ws)"

text \<open>Numbers as a user types them: the digits of \<open>n\<close> in base \<open>b\<close>, most significant
  first, with lower-case letters above 9; decimal for speeds, hexadecimal after \<open>0x\<close>
  for delay values.\<close>

definition digit_char :: "nat \<Rightarrow> char" where
  "digit_char d = char_of (if d < 10 then 48 + d else 87 + d)"

function radix_digits :: "nat \<Rightarrow> nat \<Rightarrow> string" where
  "radix_digits b n =
     (if b < 2 \<or> n < b then [digit_char n] else radix_digits b (n div b) @ [digit_char (n mod b)])"
  by pat_completeness auto
termination
proof (relation "measure snd")
  fix b n :: nat
  assume "\<not> (b < 2 \<or> n < b)"
  then show "((b, n div b), b, n) \<in> measure snd" by simp
qed simp

declare radix_digits.simps [simp del]

abbreviation dec_digits :: "nat \<Rightarrow> string" where "dec_digits n \<equiv> radix_digits 10 n"

abbreviation hex_digits :: "nat \<Rightarrow> string" where "hex_digits n \<equiv> radix_digits 16 n"

section \<open>Strings\<close>

lemma of_char_word_eq: "(of_char a :: 8 word) = of_char b \<longleftrightarrow> a = b"
proof
  have u: "unat (of_char c :: 8 word) = (of_char c :: nat)" for c
  proof -
    have "(of_char c :: 8 word) = word_of_nat (of_char c)" by (simp only: of_nat_of_char)
    then show ?thesis by (simp add: unat_of_nat of_char_mod_256)
  qed
  assume "(of_char a :: 8 word) = of_char b"
  then have "unat (of_char a :: 8 word) = unat (of_char b :: 8 word)" by simp
  then show "a = b" by (simp only: u of_char_eq_iff)
qed simp
lemma sint_eq_zero: "sint (r :: 'a::len word) = 0 \<longleftrightarrow> r = 0"
proof
  assume "sint r = 0"
  then have "sint r = sint (0 :: 'a word)" by simp
  then show "r = 0" by (rule signed_word_eqI)
qed simp
lemma of_char_word_zero: "(of_char a :: 8 word) = 0 \<longleftrightarrow> a = CHR 0x00"
  using of_char_word_eq [of a "CHR 0x00"] by simp
lemma strncmp_z_exact:
  "CHR 0x00 \<notin> set s \<Longrightarrow> CHR 0x00 \<notin> set t \<Longrightarrow>
   strncmp_z (s @ [CHR 0x00]) (t @ [CHR 0x00]) (Suc (length t)) = 0 \<longleftrightarrow> s = t"
proof (induction t arbitrary: s)
  case Nil
  then show ?case by (cases s) (auto simp: Let_def sint_eq_zero of_char_word_eq of_char_word_zero)
next
  case (Cons b t)
  then show ?case by (cases s) (auto simp: Let_def sint_eq_zero of_char_word_eq of_char_word_zero)
qed
lemma strncmp_exact:
  "CHR 0x00 \<notin> set s \<Longrightarrow> CHR 0x00 \<notin> set t \<Longrightarrow> n = Suc (length t) \<Longrightarrow> strncmp s t n = 0 \<longleftrightarrow> s = t"
  by (simp add: strncmp_def strncmp_z_exact)

lemma c_string_nonzero [simp]: "c_string s \<longleftrightarrow> CHR 0x00 \<notin> set s"
  by (simp add: c_string_def)

section \<open>strtoul on typed numbers\<close>

lemma hex_val_digit: "d < 16 \<Longrightarrow> hex_val (digit_char d) = Some d"
  by (simp add: hex_val_def digit_char_def Let_def of_char_of)

lemma strtoul_digits_append:
  "(\<forall>c \<in> set xs. \<exists>v. hex_val c = Some v \<and> v < b) \<Longrightarrow>
   strtoul_digits b acc (xs @ ys) = strtoul_digits b (strtoul_digits b acc xs) ys"
  by (induction b acc xs rule: strtoul_digits.induct) auto

lemma radix_digits_valid:
  "2 \<le> b \<Longrightarrow> b \<le> 16 \<Longrightarrow> \<forall>c \<in> set (radix_digits b n). \<exists>v. hex_val c = Some v \<and> v < b"
proof (induction b n rule: radix_digits.induct)
  case (1 b n)
  show ?case
  proof (cases "n < b")
    case True
    with "1.prems" show ?thesis by (simp add: radix_digits.simps [of b n] hex_val_digit)
  next
    case False
    have "n mod b < b" using "1.prems" by simp
    with "1.prems" have "n mod b < 16" by linarith
    with False "1.prems" "1.IH" hex_val_digit [of "n mod b"] show ?thesis
      by (auto simp: radix_digits.simps [of b n])
  qed
qed

lemma of_nat_radix_split: "(of_nat n :: 'a::len word) = of_nat (n div b) * of_nat b + of_nat (n mod b)"
proof -
  have "(of_nat n :: 'a word) = of_nat (n div b * b + n mod b)" by simp
  also have "\<dots> = of_nat (n div b) * of_nat b + of_nat (n mod b)"
    by (simp only: of_nat_add of_nat_mult)
  finally show ?thesis .
qed

lemma strtoul_radix_digits:
  "2 \<le> b \<Longrightarrow> b \<le> 16 \<Longrightarrow>
   strtoul_digits b acc (radix_digits b n) = acc * of_nat b ^ length (radix_digits b n) + of_nat n"
proof (induction b n arbitrary: acc rule: radix_digits.induct)
  case (1 b n)
  show ?case
  proof (cases "n < b")
    case True
    with "1.prems" show ?thesis by (simp add: radix_digits.simps [of b n] hex_val_digit)
  next
    case False
    let ?D = "radix_digits b (n div b)" and ?c = "digit_char (n mod b)"
    have d: "radix_digits b n = ?D @ [?c]" using False "1.prems" by (simp add: radix_digits.simps [of b n])
    have m1: "n mod b < b" using "1.prems" by simp
    with "1.prems" have m: "n mod b < b" "n mod b < 16" by linarith+
    have "strtoul_digits b acc (?D @ [?c]) = strtoul_digits b (strtoul_digits b acc ?D) [?c]"
      by (rule strtoul_digits_append) (rule radix_digits_valid [OF "1.prems"])
    also have "\<dots> = (acc * of_nat b ^ length ?D + of_nat (n div b)) * of_nat b + of_nat (n mod b)"
      using "1.IH" [OF _ "1.prems", of acc] False "1.prems" m by (simp add: hex_val_digit)
    also have "\<dots> = acc * of_nat b ^ length (?D @ [?c]) + of_nat n"
      by (simp add: of_nat_radix_split [of n b] algebra_simps)
    finally show ?thesis by (simp only: d)
  qed
qed

lemma radix_digits_ne: "radix_digits b n \<noteq> []"
  by (subst radix_digits.simps) simp

lemma digit_char_0: "digit_char 0 = CHR ''0''"
  by (simp add: digit_char_def char_of_def bit_0)

lemma digit_char_zero: "d < 16 \<Longrightarrow> digit_char d = CHR ''0'' \<longleftrightarrow> d = 0"
proof
  assume "d < 16" and "digit_char d = CHR ''0''"
  then have "Some d = hex_val (CHR ''0'')" by (simp flip: hex_val_digit)
  then show "d = 0" by (simp add: hex_val_def)
qed (simp add: digit_char_0)

lemma radix_digits_lead: "2 \<le> b \<Longrightarrow> b \<le> 16 \<Longrightarrow> 0 < n \<Longrightarrow> hd (radix_digits b n) \<noteq> CHR ''0''"
proof (induction b n rule: radix_digits.induct)
  case (1 b n)
  show ?case
  proof (cases "n < b")
    case True
    with "1.prems" show ?thesis by (simp add: radix_digits.simps [of b n] digit_char_zero)
  next
    case False
    have "0 < n div b" using False "1.prems" by (simp add: div_greater_zero_iff)
    with False "1.IH" "1.prems" show ?thesis by (simp add: radix_digits.simps [of b n] radix_digits_ne)
  qed
qed

lemma simple_strtoul_dec: "simple_strtoul (dec_digits n) = of_nat n"
proof (cases "n = 0")
  case True
  then show ?thesis
    by (simp add: radix_digits.simps [of 10 0] digit_char_0 simple_strtoul_def strtoul_radix_def hex_val_def)
next
  case False
  then have "strtoul_radix (dec_digits n) = (10, dec_digits n)"
    using radix_digits_lead [of 10 n] radix_digits_ne [of 10 n]
    by (auto simp: strtoul_radix_def split: list.split)
  then show ?thesis by (simp add: simple_strtoul_def strtoul_radix_digits)
qed

lemma simple_strtoul_hex: "simple_strtoul (''0x'' @ hex_digits n) = of_nat n"
proof -
  obtain c cs where c: "hex_digits n = c # cs"
    using radix_digits_ne [of 16 n] by (cases "hex_digits n") auto
  have "hex_val c \<noteq> None" using radix_digits_valid [of 16 n] c by auto
  then have "strtoul_radix (''0x'' @ hex_digits n) = (16, hex_digits n)"
    by (simp add: strtoul_radix_def c)
  then show ?thesis by (simp add: simple_strtoul_def strtoul_radix_digits)
qed

lemma speed_of_dec: "n < 2 ^ 31 \<Longrightarrow> sint (ucast (of_nat n :: ulong) :: u32) = int n"
proof -
  assume n: "n < 2 ^ 31"
  have "n < 2 ^ 64" using n by simp
  then have "(ucast (of_nat n :: ulong) :: u32) = of_nat n"
    by (simp add: unsigned_of_nat take_bit_nat_eq_self)
  moreover have "sint (of_nat n :: u32) = int n"
    using n by (simp add: signed_of_nat signed_take_bit_int_eq_self)
  ultimately show ?thesis by simp
qed

lemma simple_strtoul_0x: "simple_strtoul (CHR ''0'' # CHR ''x'' # hex_digits n) = of_nat n"
  using simple_strtoul_hex [of n] by simp

lemma radix_digits_c_string: "2 \<le> b \<Longrightarrow> b \<le> 16 \<Longrightarrow> c_string (radix_digits b n)"
  using radix_digits_valid [of b n] by (auto simp: hex_val_def Let_def split: if_splits)

lemma ucast_of_nat_u32: "(ucast (of_nat n :: ulong) :: u32) = of_nat n"
  by (simp add: unsigned_of_nat of_nat_take_bit take_bit_word_beyond_length_eq)

section \<open>The command functions\<close>

lemma ethernet_init_result:
  "ethernet_init E s =
     (eth_init_ret E,
      (if eth_init_ret E < 0 then eth_halt else id)
        (s\<lparr>net_tx_ready := True, events := events s @ [NetInit, EthHalt, EthSetCurrent, EthInit]\<rparr>))"
  by (simp add: ethernet_init_def platform_defs)

lemma do_eth_help_events:
  "do_eth_help s = s\<lparr>events := events s @ map PrintMsg eth_help_lines\<rparr>"
  by (simp add: do_eth_help_def eth_help_lines_def emit_def)

lemma gmac_set_rgmii_events:
  "gmac_set_rgmii tx rx s = s\<lparr>events := events s @ [SetRgmii tx rx]\<rparr>"
  by (simp add: gmac_set_rgmii_def emit_def)

lemma board_dispatch:
  assumes "\<forall>a \<in> set argv. c_string a"
  shows "board_eth_test E argv r0 s = eth_cmd_spec E argv r0 s"
proof (cases "2 < length argv")
  case True
  then have c: "c_string (argv ! 2)" using assms by simp
  have eq: "\<And>w n. CHR 0x00 \<notin> set w \<Longrightarrow> n = Suc (length w) \<Longrightarrow> strncmp (argv ! 2) w n = 0 \<longleftrightarrow> argv ! 2 = w"
    using c by (simp add: strncmp_exact)
  show ?thesis
    by (simp add: board_eth_test_def eth_cmd_spec_def parse_eth_cmd_def eq Let_def)
next
  case False
  then show ?thesis
    by (simp add: board_eth_test_def eth_cmd_spec_def parse_eth_cmd_def Let_def)
qed

lemma cmd_loop_join:
  "cmd_loop argv i cmd = cmd @ join_words (map (take SIZEOF_CMD_ETH) (drop i argv))"
proof (induction argv i cmd rule: cmd_loop.induct)
  case (1 argv i cmd)
  show ?case
  proof (cases "i < length argv")
    case True
    then have d: "drop i argv = argv ! i # drop (Suc i) argv" by (simp add: Cons_nth_drop_Suc)
    show ?thesis
    proof (cases "Suc i < length argv")
      case True
      then have d2: "drop (Suc i) argv = argv ! Suc i # drop (Suc (Suc i)) argv" by (simp add: Cons_nth_drop_Suc)
      have "i < length argv - 1" using \<open>Suc i < length argv\<close> by simp
      with True \<open>i < length argv\<close> "1.IH" [OF \<open>i < length argv\<close> refl refl] d d2 show ?thesis
        by (simp add: cmd_loop.simps [of argv i] strncat_def Let_def)
    next
      case False
      then have "\<not> i < length argv - 1" "drop (Suc i) argv = []" by simp_all
      with \<open>i < length argv\<close> "1.IH" [OF \<open>i < length argv\<close> refl refl] d show ?thesis
        by (simp add: cmd_loop.simps [of argv i] strncat_def Let_def)
    qed
  next
    case False
    then show ?thesis by (simp add: cmd_loop.simps [of argv i])
  qed
qed

lemma board_loopback_dec:
  assumes "eth_dev E = Some True" and "c_string a" and "c_string b" and "n < 2 ^ 31"
  shows "board_eth_test E [a, b, ''loopback'', dec_digits n] r0 s = Inr (eth_loopback_test E (int n) False r0 s)"
proof -
  have "\<forall>x \<in> set [a, b, ''loopback'', dec_digits n]. c_string x"
    using assms(2,3) radix_digits_c_string [of 10 n] by simp
  from board_dispatch [OF this] show ?thesis
    using assms by (simp add: eth_cmd_spec_def parse_eth_cmd_def simple_strtoul_dec speed_of_dec)
qed

lemma board_loopback_any:
  assumes "eth_dev E = Some True" and "c_string a" and "c_string b"
  shows "board_eth_test E [a, b, ''loopback'', dec_digits n] r0 s =
    Inr (eth_loopback_test E (sint (of_nat n :: u32)) False r0 s)"
proof -
  have "\<forall>x \<in> set [a, b, ''loopback'', dec_digits n]. c_string x"
    using assms(2,3) radix_digits_c_string [of 10 n] by simp
  from board_dispatch [OF this] show ?thesis
    using assms by (simp add: eth_cmd_spec_def parse_eth_cmd_def simple_strtoul_dec ucast_of_nat_u32)
qed

lemma loopback_after_init_eq:
  assumes "eth_dev E = Some True" and "eth_init_ret E = 0"
  shows "eth_loopback_test E sp dt r0 s =
    eth_run_loopback_test E sp dt r0
      ((eth_setup_loopback_test sp s)\<lparr>net_tx_ready := True,
         events := events (eth_setup_loopback_test sp s) @ [NetInit, EthHalt, EthSetCurrent, EthInit]\<rparr>)"
  using assms by (simp add: eth_loopback_test_def ethernet_init_result)

lemma fallback_eq:
  assumes "eth_dev E = Some True" and "\<forall>x \<in> set argv. c_string x" and "parse_eth_cmd argv = EthOther"
  shows "board_eth_test E argv r0 s =
    (let cmd = join_words (map (take SIZEOF_CMD_ETH) (drop 2 argv))
     in if SIZEOF_CMD_ETH \<le> length cmd then Inl CmdEthOverflow
        else if cli_ret E cmd < 0
        then Inr (cli_ret E cmd, s\<lparr>events := events s @ [RunCommand cmd, PrintErr ''DHCP test error'' (cli_ret E cmd)]\<rparr>)
        else Inr (0, s\<lparr>events := events s @ [RunCommand cmd]\<rparr>))"
  using assms
  by (simp add: board_dispatch eth_cmd_spec_def dhcp_fallback_def cmd_loop_join Let_def emit_def)

section \<open>Properties of the command layer\<close>

text \<open>C20: for an \<open>argv\<close> of C strings, the \<open>strncmp\<close> chain of \<open>board_eth_test\<close>, each
  comparison bounded by \<open>sizeof\<close> of the literal and so including its NUL, selects
  exactly the sub-command whose word and argument count match: it refines the
  reference dispatcher \<open>eth_cmd_spec\<close> (no prefix of a word and no longer word is
  taken for it).\<close>

theorem board_eth_test_refines:
  assumes "\<forall>a \<in> set argv. c_string a"
  shows "board_eth_test E argv r0 s = eth_cmd_spec E argv r0 s"
  using assms by (rule board_dispatch)

theorem board_eth_test_refines_witness:
  "board_eth_test echo_env [''rktest'', ''eth'', ''delaytestx''] 0 ready_sys =
   eth_cmd_spec echo_env [''rktest'', ''eth'', ''delaytestx''] 0 ready_sys"
  using board_eth_test_refines [of "[''rktest'', ''eth'', ''delaytestx'']" echo_env 0 ready_sys] by simp

text \<open>C23: \<open>rktest eth loopback N\<close> with \<open>N\<close> written in decimal and below \<open>2^31\<close> runs
  the single-shot test at speed \<open>N\<close>: \<open>strtoul\<close> reads back the number, and the
  conversion of the \<open>unsigned long\<close> to \<open>int speed\<close> keeps it. Any such \<open>N\<close> is
  accepted, not only 10, 100 and 1000.\<close>

theorem board_loopback_speed:
  assumes "eth_dev E = Some True" and "c_string a" and "c_string b" and "n < 2 ^ 31"
  shows "board_eth_test E [a, b, ''loopback'', dec_digits n] r0 s = Inr (eth_loopback_test E (int n) False r0 s)"
  using assms by (rule board_loopback_dec)

theorem board_loopback_speed_witness:
  "board_eth_test echo_env [''rktest'', ''eth'', ''loopback'', dec_digits 50] 0 ready_sys =
   Inr (eth_loopback_test echo_env 50 False 0 ready_sys)"
  using board_loopback_speed [of echo_env "''rktest''" "''eth''" 50 0 ready_sys] by (simp add: echo_env_def)

text \<open>C26: \<open>rktest eth help\<close> prints the five usage lines and returns 0.\<close>

theorem board_help:
  assumes "eth_dev E = Some True" and "c_string a" and "c_string b"
  shows "board_eth_test E [a, b, ''help''] r0 s = Inr (0, s\<lparr>events := events s @ map PrintMsg eth_help_lines\<rparr>)"
proof -
  have "\<forall>x \<in> set [a, b, ''help'']. c_string x" using assms(2,3) by simp
  from board_dispatch [OF this] show ?thesis
    using assms(1) by (simp add: eth_cmd_spec_def parse_eth_cmd_def do_eth_help_events)
qed

theorem board_help_witness:
  "board_eth_test echo_env [''rktest'', ''eth'', ''help''] 0 ready_sys =
   Inr (0, ready_sys\<lparr>events := map PrintMsg eth_help_lines\<rparr>)"
  using board_help [of echo_env "''rktest''" "''eth''" 0 ready_sys] by (simp add: echo_env_def ready_sys_def)

text \<open>C24: \<open>rktest eth delayline TX RX\<close> programs the delay lines with the two parsed
  values, truncated to \<open>u32\<close>, sends no frame and returns 0; nothing checks that the
  values are within \<open>0x00..0x7f\<close>.\<close>

theorem board_delayline:
  assumes "eth_dev E = Some True" and "\<forall>x \<in> set [a, b, tx, rx]. c_string x"
  shows "board_eth_test E [a, b, ''delayline'', tx, rx] r0 s =
    Inr (0, s\<lparr>events := events s @ [SetRgmii (ucast (simple_strtoul tx)) (ucast (simple_strtoul rx))]\<rparr>)"
proof -
  have "\<forall>x \<in> set [a, b, ''delayline'', tx, rx]. c_string x" using assms(2) by simp
  from board_dispatch [OF this] show ?thesis
    using assms(1) by (simp add: eth_cmd_spec_def parse_eth_cmd_def gmac_set_rgmii_events)
qed

theorem board_delayline_witness:
  "board_eth_test echo_env [''rktest'', ''eth'', ''delayline'', ''0x200'', ''0x10''] 0 ready_sys =
    Inr (0, ready_sys\<lparr>events := [SetRgmii 0x200 0x10]\<rparr>)"
  using board_delayline [of echo_env "''rktest''" "''eth''" "''0x200''" "''0x10''" 0 ready_sys]
  by (simp add: echo_env_def ready_sys_def simple_strtoul_def strtoul_radix_def hex_val_def)

text \<open>C25: when \<open>eth_init\<close> fails, \<open>eth_loopback_test\<close> returns its code after the PHY
  and MAC setup, \<open>net_init\<close>, \<open>eth_halt\<close>, \<open>eth_set_current\<close>, \<open>eth_init\<close>, a second
  \<open>eth_halt\<close> and the error message, and sends no frame.\<close>

theorem loopback_init_failure:
  assumes "eth_dev E = Some True" and "eth_init_ret E < 0"
  shows "eth_loopback_test E sp dt r0 s =
    (eth_init_ret E, (eth_setup_loopback_test sp s)\<lparr>net_tx_ready := True,
       events := events (eth_setup_loopback_test sp s) @
         [NetInit, EthHalt, EthSetCurrent, EthInit, EthHalt,
          PrintErr ''eth_loopback_test, ethernet_init error'' (eth_init_ret E)]\<rparr>)"
  using assms by (simp add: eth_loopback_test_def ethernet_init_result platform_defs)

theorem loopback_init_failure_witness:
  "eth_loopback_test (echo_env\<lparr>eth_init_ret := -5\<rparr>) 1000 False 0 ready_sys =
    (-5, (eth_setup_loopback_test 1000 ready_sys)\<lparr>net_tx_ready := True,
       events := events (eth_setup_loopback_test 1000 ready_sys) @
         [NetInit, EthHalt, EthSetCurrent, EthInit, EthHalt,
          PrintErr ''eth_loopback_test, ethernet_init error'' (-5)]\<rparr>)"
  using loopback_init_failure [of "echo_env\<lparr>eth_init_ret := -5\<rparr>" 1000 False 0 ready_sys]
  by (simp add: echo_env_def)

text \<open>C22: any other command line (another word or another argument count) is joined
  from \<open>argv[2]\<close> on with single spaces, each word cut at 512 characters, and run by
  the command interpreter; a negative result is printed and returned, any other
  gives 0. If the joined command does not fit \<open>cmd_eth[512]\<close>, the \<open>strncat\<close> calls
  have written past the buffer.\<close>

theorem dhcp_fallback_joins:
  assumes "eth_dev E = Some True" and "\<forall>x \<in> set argv. c_string x" and "parse_eth_cmd argv = EthOther"
  shows "board_eth_test E argv r0 s =
    (let cmd = join_words (map (take SIZEOF_CMD_ETH) (drop 2 argv))
     in if SIZEOF_CMD_ETH \<le> length cmd then Inl CmdEthOverflow
        else if cli_ret E cmd < 0
        then Inr (cli_ret E cmd, s\<lparr>events := events s @ [RunCommand cmd, PrintErr ''DHCP test error'' (cli_ret E cmd)]\<rparr>)
        else Inr (0, s\<lparr>events := events s @ [RunCommand cmd]\<rparr>))"
  using assms by (rule fallback_eq)

theorem dhcp_fallback_joins_witness:
  "board_eth_test echo_env [''rktest'', ''eth'', ''dhcp'', ''0x62000000'', ''192.168.1.100:Image''] 0 ready_sys =
    Inr (0, ready_sys\<lparr>events := [RunCommand ''dhcp 0x62000000 192.168.1.100:Image'']\<rparr>)"
  using dhcp_fallback_joins [of echo_env "[''rktest'', ''eth'', ''dhcp'', ''0x62000000'', ''192.168.1.100:Image'']" 0 ready_sys]
  by (simp add: echo_env_def ready_sys_def parse_eth_cmd_def SIZEOF_CMD_ETH_def)

text \<open>C21: \<open>strncat(cmd_eth, argv[i], sizeof(cmd_eth))\<close> bounds each copy by the size of
  the whole buffer, not by the room left in it: arguments whose joined length reaches
  512 characters overflow the stack buffer \<open>cmd_eth[512]\<close>.\<close>

theorem cmd_eth_overflow:
  assumes "eth_dev E = Some True" and "\<forall>x \<in> set argv. c_string x" and "parse_eth_cmd argv = EthOther"
    and "SIZEOF_CMD_ETH \<le> length (join_words (map (take SIZEOF_CMD_ETH) (drop 2 argv)))"
  shows "board_eth_test E argv r0 s = Inl CmdEthOverflow"
  using fallback_eq [OF assms(1-3)] assms(4) by (simp add: Let_def)

theorem cmd_eth_overflow_witness:
  "board_eth_test echo_env [''rktest'', ''eth'', ''dhcp'', replicate 600 (CHR ''a'')] 0 ready_sys = Inl CmdEthOverflow"
  using cmd_eth_overflow [of echo_env "[''rktest'', ''eth'', ''dhcp'', replicate 600 (CHR ''a'')]" 0 ready_sys]
  by (simp add: echo_env_def parse_eth_cmd_def SIZEOF_CMD_ETH_def)

text \<open>C16: \<open>rktest eth loopback N\<close> with any decimal \<open>N\<close> runs the test at speed
  \<open>N\<close> reduced modulo \<open>2^32\<close> and read as a signed \<open>int\<close>: \<open>strtoul\<close> accumulates in 64
  bits and the assignment to \<open>int speed\<close> keeps the low 32, so \<open>4294967306\<close> runs the
  10 Mb/s test.\<close>

theorem board_loopback_wraps:
  assumes "eth_dev E = Some True" and "c_string a" and "c_string b"
  shows "board_eth_test E [a, b, ''loopback'', dec_digits n] r0 s =
    Inr (eth_loopback_test E (sint (of_nat n :: u32)) False r0 s)"
  using assms by (rule board_loopback_any)

theorem board_loopback_wraps_witness:
  "board_eth_test echo_env [''rktest'', ''eth'', ''loopback'', dec_digits 4294967306] 0 ready_sys =
   Inr (eth_loopback_test echo_env 10 False 0 ready_sys)"
  using board_loopback_wraps [of echo_env "''rktest''" "''eth''" 4294967306 0 ready_sys]
  by (simp add: echo_env_def)

text \<open>C17: \<open>rktest eth delayline 0xTX 0xRX\<close>, the values written in hexadecimal as the
  help text shows them, programs exactly \<open>TX\<close> and \<open>RX\<close> (modulo \<open>2^32\<close>): \<open>strtoul\<close>
  with base 0 reads back what the hexadecimal notation wrote.\<close>

theorem board_delayline_hex:
  assumes "eth_dev E = Some True" and "c_string a" and "c_string b"
  shows "board_eth_test E [a, b, ''delayline'', ''0x'' @ hex_digits tx, ''0x'' @ hex_digits rx] r0 s =
    Inr (0, s\<lparr>events := events s @ [SetRgmii (of_nat tx) (of_nat rx)]\<rparr>)"
proof -
  have "\<forall>x \<in> set [a, b, ''delayline'', ''0x'' @ hex_digits tx, ''0x'' @ hex_digits rx]. c_string x"
    using assms(2,3) radix_digits_c_string [of 16 tx] radix_digits_c_string [of 16 rx] by simp
  from board_dispatch [OF this] show ?thesis
    using assms(1)
    by (simp add: eth_cmd_spec_def parse_eth_cmd_def gmac_set_rgmii_events simple_strtoul_0x ucast_of_nat_u32)
qed

theorem board_delayline_hex_witness:
  "board_eth_test echo_env [''rktest'', ''eth'', ''delayline'', ''0x'' @ hex_digits 53, ''0x'' @ hex_digits 16] 0 ready_sys =
    Inr (0, ready_sys\<lparr>events := [SetRgmii 53 16]\<rparr>)"
  using board_delayline_hex [of echo_env "''rktest''" "''eth''" 53 16 0 ready_sys]
  by (simp add: echo_env_def ready_sys_def)

text \<open>C12: the argument count alone sends a command line to the fallback: with an
  active device and an \<open>argc\<close> other than 3, 4 or 5, whatever the words, the arguments
  from \<open>argv[2]\<close> on are joined and run by the interpreter. \<open>rktest eth\<close> with no
  sub-command runs the empty command and returns its result, printing no usage.\<close>

theorem board_argc_fallback:
  assumes "eth_dev E = Some True" and "length argv \<notin> {3, 4, 5}"
  shows "board_eth_test E argv r0 s =
    (let cmd = join_words (map (take SIZEOF_CMD_ETH) (drop 2 argv))
     in if SIZEOF_CMD_ETH \<le> length cmd then Inl CmdEthOverflow
        else if cli_ret E cmd < 0
        then Inr (cli_ret E cmd, s\<lparr>events := events s @ [RunCommand cmd, PrintErr ''DHCP test error'' (cli_ret E cmd)]\<rparr>)
        else Inr (0, s\<lparr>events := events s @ [RunCommand cmd]\<rparr>))"
  using assms by (simp add: board_eth_test_def dhcp_fallback_def cmd_loop_join Let_def emit_def)

theorem board_argc_fallback_witness:
  "board_eth_test echo_env [''rktest'', ''eth''] 0 ready_sys = Inr (0, ready_sys\<lparr>events := [RunCommand '''']\<rparr>)"
  using board_argc_fallback [of echo_env "[''rktest'', ''eth'']" 0 ready_sys]
  by (simp add: echo_env_def ready_sys_def SIZEOF_CMD_ETH_def)

end
