(* ===== verification/EthProtocol.thy ===== *)
theory EthProtocol
  imports SweepTrace Command
begin

text \<open>
  The calling protocol of U-Boot's Ethernet API as the driver model states it
  (\<open>net/eth-uclass.c\<close>, outside this tree): a device sends and frees packets only
  between an \<open>eth_init\<close> that succeeded and the next \<open>eth_halt\<close>. The protocol is a
  deterministic machine \<open>dev_step\<close> over the events of the log, \<open>None\<close> when a
  packet operation finds the device halted; \<open>dev_run\<close> runs it over a log. The
  lemmas show that every command of \<open>board_eth_test\<close> keeps to it from a halted
  device, and that the test leaves the PHY in loopback mode when it returns.
\<close>

section \<open>The device protocol\<close>

text \<open>\<open>eth_init\<close> brings the device up when it returns 0 (the API's success value);
  any other return leaves it halted.\<close>

datatype dev_state = DevHalted | DevRunning

fun dev_step :: "env \<Rightarrow> dev_state \<Rightarrow> event \<Rightarrow> dev_state option" where
  "dev_step E st EthInit = Some (if eth_init_ret E = 0 then DevRunning else DevHalted)"
| "dev_step E st EthHalt = Some DevHalted"
| "dev_step E st (SendPacket b n) = (if st = DevRunning then Some st else None)"
| "dev_step E st (FreePkt len) = (if st = DevRunning then Some st else None)"
| "dev_step E st _ = Some st"

fun dev_run :: "env \<Rightarrow> dev_state \<Rightarrow> event list \<Rightarrow> dev_state option" where
  "dev_run E st [] = Some st"
| "dev_run E st (e # es) = (case dev_step E st e of None \<Rightarrow> None | Some st' \<Rightarrow> dev_run E st' es)"

text \<open>Logs with no device control (\<open>no_ctl\<close>: the runner's events), and events that
  neither control the device nor use it (\<open>quiet\<close>: messages, register writes, delays).\<close>

definition no_ctl :: "event list \<Rightarrow> bool" where
  "no_ctl evs \<longleftrightarrow> EthInit \<notin> set evs \<and> EthHalt \<notin> set evs"

fun quiet :: "event \<Rightarrow> bool" where
  "quiet EthInit = False"
| "quiet EthHalt = False"
| "quiet (SendPacket b n) = False"
| "quiet (FreePkt len) = False"
| "quiet _ = True"

section \<open>Lemmas\<close>

lemma dev_run_append:
  "dev_run E st (xs @ ys) = (case dev_run E st xs of None \<Rightarrow> None | Some st' \<Rightarrow> dev_run E st' ys)"
  by (induction xs arbitrary: st) (auto split: option.split)

lemma no_ctl_simps [simp]:
  "no_ctl []" "no_ctl (xs @ ys) \<longleftrightarrow> no_ctl xs \<and> no_ctl ys" "no_ctl (e # xs) \<longleftrightarrow> e \<noteq> EthInit \<and> e \<noteq> EthHalt \<and> no_ctl xs"
  by (auto simp: no_ctl_def)

lemma dev_run_running: "no_ctl xs \<Longrightarrow> dev_run E DevRunning xs = Some DevRunning"
proof (induction xs)
  case (Cons e xs)
  then show ?case by (cases e) simp_all
qed simp

lemma no_ctl_iter [simp]: "no_ctl (iter_sent dt sp i j m)" "no_ctl (free_events E len)"
  by (simp_all add: iter_sent_def free_events_def)

lemma iteration_no_ctl: "\<exists>X. events (lb_iteration E sp dt i j t) = events t @ X \<and> no_ctl X"
proof -
  obtain len rx where r: "recv E (events t @ iter_sent dt sp i j (txbuf t)) = (len, rx)"
    by (cases "recv E (events t @ iter_sent dt sp i j (txbuf t))")
  show ?thesis by (simp add: lb_iteration_fields(3) [OF r])
qed

lemma row_no_ctl: "\<exists>X. events (foldl (\<lambda>t j. lb_iteration E sp dt i j t) t js) = events t @ X \<and> no_ctl X"
proof (induction js arbitrary: t)
  case (Cons j js)
  obtain X where X: "events (lb_iteration E sp dt i j t) = events t @ X" "no_ctl X"
    using iteration_no_ctl by blast
  obtain Y where "events (foldl (\<lambda>t j. lb_iteration E sp dt i j t) (lb_iteration E sp dt i j t) js) =
                  events (lb_iteration E sp dt i j t) @ Y" "no_ctl Y"
    using Cons.IH by blast
  with X show ?case by auto
qed simp

lemma sweep_no_ctl: "\<exists>X. events (foldl (\<lambda>t i. sweep_row E sp i t) t rows) = events t @ X \<and> no_ctl X"
proof (induction rows arbitrary: t)
  case (Cons i rows)
  obtain X where X: "events (sweep_row E sp i t) = events t @ X" "no_ctl X"
    using row_no_ctl [of E sp True i "emit (PrintRow i) t" "[0..<MAX_RX_DELAY_LINE]"]
    by (auto simp: sweep_row_def)
  obtain Y where "events (foldl (\<lambda>t i. sweep_row E sp i t) (sweep_row E sp i t) rows) =
                  events (sweep_row E sp i t) @ Y" "no_ctl Y"
    using Cons.IH by blast
  with X show ?case by auto
qed simp

lemma run_no_ctl:
  "\<exists>X. events (snd (eth_run_loopback_test E sp dt r0 s)) = events s @ X \<and> no_ctl X"
proof (cases "net_tx_ready s")
  case False
  then show ?thesis by (simp add: eth_run_loopback_test_def)
next
  case ready: True
  show ?thesis
  proof (cases dt)
    case True
    obtain X where "events (foldl (\<lambda>t i. sweep_row E sp i t) (lb_start E r0 s) [0..<MAX_TX_DELAY_LINE]) =
                    events (lb_start E r0 s) @ X" "no_ctl X"
      using sweep_no_ctl by blast
    with True show ?thesis
      by (simp add: run_sweep [OF ready] Let_def sys.defs lb_start_fields)
  next
    case False
    obtain X where "events (lb_iteration E sp False 0 0 (lb_start E r0 s)) = events (lb_start E r0 s) @ X" "no_ctl X"
      using iteration_no_ctl by blast
    with False show ?thesis
      by (simp add: run_single_shot_state [OF ready] sys.defs lb_start_fields)
  qed
qed

lemma dev_run_quiet: "list_all quiet xs \<Longrightarrow> dev_run E st xs = Some st"
proof (induction xs)
  case (Cons e xs)
  then show ?case by (cases e) simp_all
qed simp

lemma setup_quiet: "\<exists>X. events (eth_setup_loopback_test sp s) = events s @ X \<and> list_all quiet X"
  by (simp add: eth_setup_loopback_test_def platform_defs Let_def split: option.split prod.split)

lemma loopback_protocol:
  "dev_run E DevHalted (drop (length (events s)) (events (snd (eth_loopback_test E sp dt r0 s)))) \<noteq> None"
proof (cases "eth_dev E = Some True")
  case False
  then show ?thesis by (simp add: eth_loopback_test_def)
next
  case True
  obtain X where X: "events (eth_setup_loopback_test sp s) = events s @ X" "list_all quiet X"
    using setup_quiet by blast
  let ?s1 = "(eth_setup_loopback_test sp s)\<lparr>net_tx_ready := True,
              events := events (eth_setup_loopback_test sp s) @ [NetInit, EthHalt, EthSetCurrent, EthInit]\<rparr>"
  obtain Y where Y: "events (snd (eth_run_loopback_test E sp dt r0 ?s1)) = events ?s1 @ Y" "no_ctl Y"
    using run_no_ctl by blast
  show ?thesis
    using True X Y
    by (auto simp: eth_loopback_test_def ethernet_init_result platform_defs dev_run_append
        dev_run_quiet dev_run_running)
qed

lemma iteration_phymap: "phymap (lb_iteration E sp dt i j t) = phymap t"
  by (simp add: lb_iteration_def lb_receive_def platform_defs Let_def split: prod.split)

lemma row_phymap: "phymap (foldl (\<lambda>t j. lb_iteration E sp dt i j t) t js) = phymap t"
  by (induction js arbitrary: t) (simp_all add: iteration_phymap)

lemma sweep_phymap: "phymap (foldl (\<lambda>t i. sweep_row E sp i t) t rows) = phymap t"
  by (induction rows arbitrary: t) (simp_all add: sweep_row_def row_phymap)

lemma run_phymap: "phymap (snd (eth_run_loopback_test E sp dt r0 s)) = phymap s"
proof (cases "net_tx_ready s")
  case ready: True
  show ?thesis
  proof (cases dt)
    case True
    then show ?thesis
      by (simp add: run_sweep [OF ready] Let_def sys.defs sweep_phymap lb_start_def platform_defs)
  next
    case False
    then show ?thesis
      by (simp add: run_single_shot_state [OF ready] sys.defs iteration_phymap lb_start_def platform_defs)
  qed
qed (simp add: eth_run_loopback_test_def)

section \<open>Properties\<close>

text \<open>C9: every command of \<open>rktest eth\<close>, started with the device halted, sends and
  frees packets only while the device is up: after a successful \<open>eth_init\<close> and before
  any \<open>eth_halt\<close>. In particular a failed \<open>eth_init\<close> never leads to a send.\<close>

theorem board_eth_test_protocol:
  assumes "board_eth_test E argv r0 s = Inr (r, s')"
  shows "dev_run E DevHalted (drop (length (events s)) (events s')) \<noteq> None"
proof -
  have lb: "dev_run E DevHalted (drop (length (events s)) (events s')) \<noteq> None"
    if "eth_loopback_test E sp dt r0 s = (r, s')" for sp dt
    using loopback_protocol [of E s sp dt r0] by (simp add: that)
  show ?thesis
    using assms lb
    by (auto simp: board_eth_test_def Let_def do_eth_help_events gmac_set_rgmii_events dhcp_fallback_def
        emit_def eth_help_lines_def split: if_splits)
qed

theorem board_eth_test_protocol_witness:
  "\<exists>r s'. board_eth_test echo_env [''rktest'', ''eth'', ''loopback'', dec_digits 1000] 0 ready_sys = Inr (r, s') \<and>
     dev_run echo_env DevHalted (drop 0 (events s')) \<noteq> None"
proof -
  obtain r s' where rs: "eth_loopback_test echo_env 1000 False 0 ready_sys = (r, s')"
    by (cases "eth_loopback_test echo_env 1000 False 0 ready_sys")
  have b: "board_eth_test echo_env [''rktest'', ''eth'', ''loopback'', dec_digits 1000] 0 ready_sys = Inr (r, s')"
    using board_loopback_any [of echo_env "''rktest''" "''eth''" 1000 0 ready_sys] rs by (simp add: echo_env_def)
  have "dev_run echo_env DevHalted (drop (length (events ready_sys)) (events s')) \<noteq> None"
    by (rule board_eth_test_protocol [OF b])
  with b show ?thesis by (simp add: ready_sys_def)
qed

text \<open>C13: after a test that got past \<open>eth_init\<close>, the PHY is still in loopback: the
  BMCR that \<open>eth_setup_loopback_test\<close> wrote, with \<open>BMCR_LOOPBACK\<close> set, is never
  restored, so the port cannot carry traffic until the PHY is reset.\<close>

theorem phy_left_in_loopback:
  assumes "eth_dev E = Some True" and "eth_init_ret E = 0" and "get_current_phydev s = Some (a, p)"
  shows "\<exists>p'. phymap (snd (eth_loopback_test E sp dt r0 s)) a = Some p' \<and> bit (phy_bmcr p') 14"
  using setup_fields(2) [OF assms(3), of sp]
  by (simp add: loopback_after_init_eq [OF assms(1,2)] run_phymap written_bmcr_bit)

theorem phy_left_in_loopback_witness:
  "\<exists>p'. phymap (snd (eth_loopback_test echo_env 1000 False 0 example_sys)) 3 = Some p' \<and> bit (phy_bmcr p') 14"
  using phy_left_in_loopback [of echo_env example_sys 3 example_phy 1000 False 0] example_sys_phydev
  by (simp add: echo_env_def)

end
