(* ===== verification/BoardConfig.thy ===== *)
theory BoardConfig
  imports Prelude
begin

text \<open>
  The board configuration header \<open>src/include/configs/z28pro_rk3328.h\<close>. A header is
  what the C preprocessor does with it: a transformer of the macro table. The
  include guard \<open>__Z28PRO_RK3328_H\<close> makes a second inclusion a no-op; the body
  includes the SoC header \<open>configs/rk3328_common.h\<close> and defines the three board
  macros. The SoC header is outside this tree: the board header is modelled over
  any transformer \<open>soc\<close> standing for it, so its lemmas hold whatever that header
  defines. The values
  are typed as the C expressions are: \<open>1\<close> and \<open>10\<close> are \<open>int\<close>, \<open>2UL << 30\<close> is an
  \<open>unsigned long\<close>, a word whose width is the target's.
\<close>

section \<open>The macro table\<close>

datatype macro_val = Defined | IntVal int | ULongVal ulong

type_synonym macros = "string \<Rightarrow> macro_val option"

section \<open>The board macros\<close>

definition CONFIG_SYS_MMC_ENV_DEV :: int where "CONFIG_SYS_MMC_ENV_DEV = 1"

text \<open>\<open>2UL << 30\<close> at any width of \<open>unsigned long\<close>; the RK3328 is an AArch64 SoC, so
  the header's value is the 64-bit instance.\<close>

definition SDRAM_BANK_SIZE :: "'a::len word" where "SDRAM_BANK_SIZE = push_bit 30 2"

definition CONFIG_CONSOLE_SCROLL_LINES :: int where "CONFIG_CONSOLE_SCROLL_LINES = 10"

section \<open>The header as a macro-table transformer\<close>

text \<open>Lines 7-18: \<open>#ifndef\<close> guard, \<open>#define\<close> of the guard, \<open>#include\<close> of the SoC
  header, the three \<open>#define\<close>s (a later definition of a name replaces an earlier
  one, as the preprocessor does after its redefinition warning).\<close>

definition z28pro_rk3328_h :: "(macros \<Rightarrow> macros) \<Rightarrow> macros \<Rightarrow> macros" where
  "z28pro_rk3328_h soc m =
     (if m ''__Z28PRO_RK3328_H'' \<noteq> None then m
      else
        (let m1 = m(''__Z28PRO_RK3328_H'' \<mapsto> Defined);
             m2 = soc m1
         in m2(''CONFIG_SYS_MMC_ENV_DEV'' \<mapsto> IntVal CONFIG_SYS_MMC_ENV_DEV,
               ''SDRAM_BANK_SIZE'' \<mapsto> ULongVal SDRAM_BANK_SIZE,
               ''CONFIG_CONSOLE_SCROLL_LINES'' \<mapsto> IntVal CONFIG_CONSOLE_SCROLL_LINES)))"

section \<open>Lemmas\<close>

lemma z28pro_defined: "m ''__Z28PRO_RK3328_H'' \<noteq> None \<Longrightarrow> z28pro_rk3328_h soc m = m"
  by (simp add: z28pro_rk3328_h_def)

lemma z28pro_guard:
  assumes "\<forall>m. soc m ''__Z28PRO_RK3328_H'' = m ''__Z28PRO_RK3328_H''"
  shows "z28pro_rk3328_h soc m ''__Z28PRO_RK3328_H'' \<noteq> None"
  using assms by (simp add: z28pro_rk3328_h_def Let_def)

lemma sdram_bank_size_64: "(SDRAM_BANK_SIZE :: ulong) = 0x80000000"
  by (simp add: SDRAM_BANK_SIZE_def)

lemma z28pro_first:
  "m ''__Z28PRO_RK3328_H'' = None \<Longrightarrow>
   z28pro_rk3328_h soc m =
     (soc (m(''__Z28PRO_RK3328_H'' \<mapsto> Defined)))(''CONFIG_SYS_MMC_ENV_DEV'' \<mapsto> IntVal 1,
        ''SDRAM_BANK_SIZE'' \<mapsto> ULongVal 0x80000000, ''CONFIG_CONSOLE_SCROLL_LINES'' \<mapsto> IntVal 10)"
  by (simp add: z28pro_rk3328_h_def Let_def CONFIG_SYS_MMC_ENV_DEV_def sdram_bank_size_64
      CONFIG_CONSOLE_SCROLL_LINES_def)

text \<open>C19: for any SoC header that leaves the board's guard alone, including
  \<open>z28pro_rk3328.h\<close> once or any number of times more gives the same table: none
  if the guard was already defined, and otherwise the SoC header's table over the
  defined guard, with the board's values \<open>CONFIG_SYS_MMC_ENV_DEV = 1\<close>,
  \<open>SDRAM_BANK_SIZE = 2UL << 30 = 0x80000000\<close> and \<open>CONFIG_CONSOLE_SCROLL_LINES = 10\<close>
  replacing whatever the SoC header gave those names. The SoC header runs once.\<close>

theorem z28pro_include_repeat:
  assumes "\<forall>m. soc m ''__Z28PRO_RK3328_H'' = m ''__Z28PRO_RK3328_H''"
  shows "(z28pro_rk3328_h soc ^^ Suc n) m =
    (if m ''__Z28PRO_RK3328_H'' \<noteq> None then m
     else (soc (m(''__Z28PRO_RK3328_H'' \<mapsto> Defined)))(''CONFIG_SYS_MMC_ENV_DEV'' \<mapsto> IntVal 1,
        ''SDRAM_BANK_SIZE'' \<mapsto> ULongVal 0x80000000, ''CONFIG_CONSOLE_SCROLL_LINES'' \<mapsto> IntVal 10))"
proof (induction n)
  case 0
  show ?case by (cases "m ''__Z28PRO_RK3328_H''") (simp_all add: z28pro_first z28pro_defined)
next
  case (Suc n)
  have "(z28pro_rk3328_h soc ^^ Suc (Suc n)) m = z28pro_rk3328_h soc ((z28pro_rk3328_h soc ^^ Suc n) m)"
    by simp
  also have "\<dots> = (z28pro_rk3328_h soc ^^ Suc n) m"
  proof (rule z28pro_defined)
    show "(z28pro_rk3328_h soc ^^ Suc n) m ''__Z28PRO_RK3328_H'' \<noteq> None"
      using z28pro_guard [of soc "(z28pro_rk3328_h soc ^^ n) m"] assms by simp
  qed
  also note Suc.IH
  finally show ?case .
qed

theorem z28pro_include_repeat_witness:
  "(z28pro_rk3328_h (\<lambda>m. m(''__CONFIG_RK3328_COMMON_H'' \<mapsto> Defined, ''CONFIG_SYS_MMC_ENV_DEV'' \<mapsto> IntVal 0)) ^^ Suc 2)
     Map.empty ''CONFIG_SYS_MMC_ENV_DEV'' = Some (IntVal 1)"
  using z28pro_include_repeat [of "\<lambda>m. m(''__CONFIG_RK3328_COMMON_H'' \<mapsto> Defined, ''CONFIG_SYS_MMC_ENV_DEV'' \<mapsto> IntVal 0)" 2 Map.empty]
  by simp

end
