(* ===== verification/Spec2Isabelle.thy ===== *)
theory Spec2Isabelle
  imports EthProtocol BoardConfig
begin

text \<open>
  \<^bold>\<open>A verification development of the Rockchip Ethernet diagnostic and the z28pro
  board configuration.\<close>

  \<^bold>\<open>The program.\<close> \<open>src/test/rockchip/test-eth.c\<close> implements \<open>rktest eth ...\<close>: the
  dispatcher \<open>board_eth_test\<close> selects a sub-command by argument count and word
  (\<open>delaytest\<close>, \<open>help\<close>, \<open>loopback N\<close>, \<open>delayline TX RX\<close>) or joins the arguments into
  \<open>cmd_eth[512]\<close> and hands them to the command interpreter (the DHCP/TFTP path).
  \<open>eth_loopback_test\<close> puts the current PHY into loopback (\<open>eth_setup_loopback_test\<close>,
  with \<open>get_current_phydev\<close>), brings the network up (\<open>ethernet_init\<close>) and runs
  \<open>eth_run_loopback_test\<close>, which builds one test frame (\<open>create_lbtest_frame\<close>), tags
  it per delay pair (\<open>alter_lbtest_frame\<close>), sends it, polls the receive path and
  compares (\<open>check_lbtest_frame\<close>), either once or over the whole delay-line sweep.
  \<open>src/include/configs/z28pro_rk3328.h\<close> sets three board macros.

  \<^bold>\<open>The theories.\<close>
  \<^item> \<open>Prelude\<close>: C integer types as words, byte memory as a total store \<open>buf\<close>, libc
    \<open>memset\<close>/\<open>memcpy\<close>, errno values, register-bit and unsigned-halving lemmas.
  \<^item> \<open>Platform\<close>: the collaborators the file calls but does not define (driver
    model, MDIO bus, MAC register, network stack, RGMII setter, interpreter), from
    their contracts: \<open>env\<close> fixes their answers, \<open>sys\<close> holds the state the
    diagnostic changes, and every effect is appended to an ordered \<open>event\<close> log.
  \<^item> \<open>Frame\<close>: \<open>create_lbtest_frame\<close>, \<open>alter_lbtest_frame\<close>, \<open>check_lbtest_frame\<close> (with
    its loop \<open>check_loop\<close>) and \<open>net_set_ether\<close> on the byte store, \<open>unsigned int\<close>
    arithmetic as \<open>u32\<close>, the \<open>int\<close> index of the comparison bounded by \<open>INT_MAX\<close>
    with its overflow as the undefined value \<open>None\<close>. Lemmas: the layout of the
    frame, the two sentinels, the comparison equals the reference \<open>frames_agree\<close>
    below \<open>2^31\<close> and is undefined above it on matching frames, and the wrap of
    \<open>frame_size / 2 - 1\<close> below 2.
  \<^item> \<open>PhySetup\<close>: \<open>get_current_phydev\<close> (a scan \<open>phydev_scan\<close> below \<open>PHY_MAX_ADDR\<close>),
    \<open>eth_setup_loopback_test\<close> split into its MAC (\<open>loopback_mac_conf\<close>) and BMCR
    (\<open>loopback_bmcr\<close>) computations; the decoders \<open>bmcr_speed\<close>/\<open>mac_speed\<close> (IEEE
    802.3) are the contract. Lemmas: the PHY is put in loopback at the requested
    speed, the MAC speed bits, the FES_100 and duplex defects, the no-PHY path.
  \<^item> \<open>LoopbackRun\<close>: \<open>eth_run_loopback_test\<close> with its locals \<open>success\<close>/\<open>ret\<close> as the
    record \<open>lb_state\<close> extending \<open>sys\<close>, one iteration \<open>lb_iteration\<close> (set delays,
    tag, send, settle, \<open>lb_receive\<close>), the two counted loops \<open>tx_loop\<close>/\<open>rx_loop\<close> as
    functions with measures and the single-shot early return as \<open>Some ret\<close>. The
    invariant \<open>lb_step_ok\<close> (success counts the printed \<open>*\<close>, the log only grows,
    \<open>ret = 0\<close> only after a success) is shown for an iteration and closed under
    composition and folds. Lemmas: single-shot result on every branch, echo passes,
    sweep result (0 after a \<open>*\<close>, else the code of the last pair's receive).
  \<^item> \<open>SweepTrace\<close>: the settings and frames a run produces (\<open>delay_settings\<close>,
    \<open>sent_frames\<close>, \<open>sweep_frame\<close>): all 127 x 127 pairs in order, never \<open>0x7F\<close>; the
    accumulation of sentinels that makes consecutive frames equal; every frame equal
    to the base frame outside the tag window; one frame in single-shot mode and
    exactly 127 x 127 in a sweep; with a device that loops every frame back,
    every pair passes; and \<open>free_pkt\<close> is called once exactly when the received
    length is not negative, so an empty receive is freed too.
  \<^item> \<open>Command\<close>: \<open>ethernet_init\<close>, \<open>eth_loopback_test\<close>, \<open>do_eth_help\<close>, the fallback
    (\<open>cmd_loop\<close>, \<open>dhcp_fallback\<close>) and \<open>board_eth_test\<close>, with U-Boot's \<open>strncmp\<close>,
    \<open>simple_strtoul\<close> (base 0, \<open>unsigned long\<close> = 64 bits) and \<open>strncat\<close> from their
    library sources. The write past \<open>cmd_eth[512]\<close>, undefined in C, is the error
    value \<open>CmdEthOverflow\<close> of the result type \<open>board_err + int \<times> sys\<close>. Lemmas: the
    dispatch refines the exact-word dispatcher \<open>eth_cmd_spec\<close>; \<open>strtoul\<close> reads back
    a number written in decimal or after \<open>0x\<close> (\<open>radix_digits\<close>), and a speed is kept
    modulo \<open>2^32\<close>; each sub-command's effect and the error paths; any \<open>argc\<close>
    other than 3, 4 or 5 goes to the fallback (\<open>rktest eth\<close> alone runs the empty
    command).
  \<^item> \<open>EthProtocol\<close>: the Ethernet API's calling protocol (send and free only
    between a successful \<open>eth_init\<close> and \<open>eth_halt\<close>) as a machine \<open>dev_step\<close> run
    over the event log by \<open>dev_run\<close>; every command of \<open>board_eth_test\<close> keeps it,
    and the PHY is left in loopback when the test returns.
  \<^item> \<open>BoardConfig\<close>: the header as a transformer of the preprocessor's macro table
    (\<open>z28pro_rk3328_h\<close>), with its include guard, parametric in the SoC header it
    includes; for any SoC header that leaves the board guard alone, one or more
    inclusions give one run of the SoC header with the board's three values on top.
  \<^item> This theory: the state after a successful bring-up (\<open>init_state\<close>) and the
    properties of whole commands that span the theories.

  \<^bold>\<open>Bounds and termination.\<close> All loops of the file are counted: \<open>check_loop\<close> (up to
  \<open>frame_size\<close> and \<open>INT_MAX\<close>), \<open>phydev_scan\<close> (up to \<open>PHY_MAX_ADDR\<close>), \<open>tx_loop\<close>/\<open>rx_loop\<close> (up to
  \<open>0x7F\<close>) and \<open>cmd_loop\<close> (up to \<open>argc\<close>) are \<open>function\<close>s with a measure, so every
  model is total and no fuel is needed; the exact number of iterations of a run is
  itself a lemma (one frame, or 127 x 127). The receive path does not block (a length of
  0 means nothing arrived), so it is one answer of \<open>recv\<close> per iteration.

  \<^bold>\<open>Not modelled.\<close> The bodies of the collaborators (PHY and MAC drivers, MDIO,
  network stack, command interpreter) are outside the tree; only their contracts are
  modelled, and \<open>recv\<close> is any function of the log so far. The contents of
  \<open>configs/rk3328_common.h\<close> are outside the tree: the board header is modelled
  over any transformer standing for it. Console output is an event carrying the message, not the formatted bytes.
  Timing (\<open>udelay\<close>) is an event, not elapsed time.
\<close>

text \<open>The state in which \<open>eth_loopback_test\<close> starts the runner after a successful
  bring-up at speed \<open>sp\<close>.\<close>

definition init_state :: "int \<Rightarrow> sys \<Rightarrow> sys" where
  "init_state sp s =
     (eth_setup_loopback_test sp s)\<lparr>net_tx_ready := True,
        events := events (eth_setup_loopback_test sp s) @ [NetInit, EthHalt, EthSetCurrent, EthInit]\<rparr>"

section \<open>Lemmas across components\<close>

lemma init_state_ready: "net_tx_ready (init_state sp s)"
  by (simp add: init_state_def)

lemma board_delaytest_run:
  assumes "eth_dev E = Some True" and "eth_init_ret E = 0" and "c_string a" and "c_string b"
  shows "board_eth_test E [a, b, ''delaytest''] r0 s =
    Inr (eth_run_loopback_test E 1000 True r0 (init_state 1000 s))"
proof -
  have "\<forall>x \<in> set [a, b, ''delaytest'']. c_string x" using assms(3,4) by simp
  from board_dispatch [OF this] show ?thesis
    using assms by (simp add: eth_cmd_spec_def parse_eth_cmd_def loopback_after_init_eq init_state_def)
qed

section \<open>Properties of the whole command\<close>

text \<open>C2: \<open>rktest eth delaytest\<close> on an active device whose \<open>eth_init\<close> succeeds runs
  the sweep at 1000 Mb/s after the PHY/MAC setup and the network bring-up: the
  delay lines are set to every pair below \<open>0x7F\<close> in row-major order, and the command
  returns 0 exactly when some pair printed \<open>*\<close>.\<close>

theorem rktest_eth_delaytest:
  assumes "eth_dev E = Some True" and "eth_init_ret E = 0" and "c_string a" and "c_string b"
  shows "\<exists>r s'. board_eth_test E [a, b, ''delaytest''] r0 s = Inr (r, s') \<and>
    delay_settings (drop (length (events (init_state 1000 s))) (events s')) =
      map (\<lambda>(i, j). (of_nat i, of_nat j)) (List.product [0..<MAX_TX_DELAY_LINE] [0..<MAX_RX_DELAY_LINE]) \<and>
    (r = 0 \<longleftrightarrow> PrintMark (CHR ''*'') \<in> set (drop (length (events (init_state 1000 s))) (events s')))"
proof -
  obtain r s' where rs: "eth_run_loopback_test E 1000 True r0 (init_state 1000 s) = (r, s')"
    by (cases "eth_run_loopback_test E 1000 True r0 (init_state 1000 s)")
  have "board_eth_test E [a, b, ''delaytest''] r0 s = Inr (r, s')"
    using board_delaytest_run [OF assms] rs by simp
  moreover have "delay_settings (drop (length (events (init_state 1000 s))) (events s')) =
      map (\<lambda>(i, j). (of_nat i, of_nat j)) (List.product [0..<MAX_TX_DELAY_LINE] [0..<MAX_RX_DELAY_LINE])"
    using sweep_delay_settings_eq [of "init_state 1000 s" E 1000 r0] init_state_ready rs by simp
  moreover have "r = 0 \<longleftrightarrow> PrintMark (CHR ''*'') \<in> set (drop (length (events (init_state 1000 s))) (events s'))"
    using sweep_result_iff [of "init_state 1000 s" E 1000 r0] init_state_ready rs by simp
  ultimately show ?thesis by blast
qed

theorem rktest_eth_delaytest_witness:
  "\<exists>r s'. board_eth_test echo_env [''rktest'', ''eth'', ''delaytest''] 0 ready_sys = Inr (r, s') \<and>
    delay_settings (drop (length (events (init_state 1000 ready_sys))) (events s')) =
      map (\<lambda>(i, j). (of_nat i, of_nat j)) (List.product [0..<MAX_TX_DELAY_LINE] [0..<MAX_RX_DELAY_LINE]) \<and>
    (r = 0 \<longleftrightarrow> PrintMark (CHR ''*'') \<in> set (drop (length (events (init_state 1000 ready_sys))) (events s')))"
  using rktest_eth_delaytest [of echo_env "''rktest''" "''eth''" 0 ready_sys] by (simp add: echo_env_def)

text \<open>C1: \<open>rktest eth loopback N\<close>, for any decimal \<open>N\<close> below \<open>2^31\<close>, on an active
  device whose \<open>eth_init\<close> succeeds and whose driver hands back the frame it sent,
  returns 0: dispatch, setup, bring-up and the single-shot test compose.\<close>

theorem rktest_eth_loopback_echo:
  assumes "eth_dev E = Some True" and "eth_init_ret E = 0" and "recv E = echo_recv"
    and "c_string a" and "c_string b" and "n < 2 ^ 31"
  shows "\<exists>s'. board_eth_test E [a, b, ''loopback'', dec_digits n] r0 s = Inr (0, s')"
proof -
  obtain r s' where rs: "eth_run_loopback_test E (int n) False r0 (init_state (int n) s) = (r, s')"
    by (cases "eth_run_loopback_test E (int n) False r0 (init_state (int n) s)")
  have "board_eth_test E [a, b, ''loopback'', dec_digits n] r0 s = Inr (r, s')"
    using board_loopback_dec [OF assms(1,4,5,6)] loopback_after_init_eq [OF assms(1,2)] rs
    by (simp add: init_state_def)
  moreover have "r = 0"
    using echo_single_shot_zero [of "init_state (int n) s" E "int n" r0] init_state_ready assms(3) rs by simp
  ultimately show ?thesis by blast
qed

theorem rktest_eth_loopback_echo_witness:
  "\<exists>s'. board_eth_test echo_env [''rktest'', ''eth'', ''loopback'', dec_digits 1000] 0 ready_sys = Inr (0, s')"
  using rktest_eth_loopback_echo [of echo_env "''rktest''" "''eth''" 1000 0 ready_sys] by (simp add: echo_env_def)

end
